theory Spec2Isabelle
  imports Complex_Main "HOL-Library.AList"
begin

section \<open>JSON values, Python errors and the Python runtime\<close>

text \<open>
  The tables are JSON documents read by \<open>json.load\<close>: a value of Python type \<open>Any\<close> is a
  \<open>json\<close>, a \<open>Dict[str, Any]\<close> is an association list in insertion order (\<open>jobj\<close>).
  A dictionary has distinct keys, as \<open>json.load\<close> produces it; \<open>map_of\<close> reads it.

  A Python float is a finite rational here (no infinity, no NaN), and float arithmetic is
  idealised: \<open>+\<close>, \<open>-\<close>, \<open>*\<close> and \<open>/\<close> are exact where a double would round to 53
  bits, \<open>0.20\<close> is \<open>1 / 5\<close> and \<open>0.4\<close> is \<open>2 / 5\<close>. What a result is to the last
  bit (how many coins fit a budget, which candidate a draw near a boundary selects, the
  second decimal of a rounded total) is therefore not what the theorems below are about:
  they are about control flow, errors, defaults and the shape of the records, which do
  not depend on how an operation rounds. An operation whose double result would be
  infinite is modelled where Python raises on it at once (\<open>float\<close> of an integer,
  \<open>int\<close> of a quotient).
\<close>

datatype json =
    JNull
  | JBool bool
  | JInt int
  | JFloat rat
  | JStr string
  | JArr "json list"
  | JObj "(string \<times> json) list"

type_synonym jobj = "(string \<times> json) list"

text \<open>
  One constructor for every \<open>raise\<close> of the two modules (the class is in the name, the
  formatted arguments of the message are the constructor's arguments), and one for every
  built-in exception the code can run into.
\<close>

datatype pyerr =
    ValueError_level_not_found int
  | ValueError_no_templates_defined
  | ValueError_no_templates_match int string string
  | ValueError_missing_enemy_group_id
  | ValueError_enemy_group_not_found json
  | ValueError_conversion
  | ValueError_choices
  | ValueError_empty_range
  | KeyError string
  | TypeError
  | AttributeError
  | IndexError
  | ZeroDivisionError
  | OverflowError

text \<open>
  The interpreter and its standard library are not part of the repository; what the code
  uses of them is a parameter: the generator \<open>random.Random\<close> (its state type is \<open>'r\<close>),
  the parsers behind \<open>int(str)\<close> and \<open>float(str)\<close>, \<open>str\<close> of a value that is not a
  string, and the iteration order of a \<open>set\<close>.
\<close>

record 'r pyrt =
  rng_seed :: "int \<Rightarrow> 'r"
  rng_random :: "'r \<Rightarrow> rat \<times> 'r"
  rng_randint :: "int \<Rightarrow> int \<Rightarrow> 'r \<Rightarrow> int \<times> 'r"
  rng_choice :: "nat \<Rightarrow> 'r \<Rightarrow> nat \<times> 'r"
  int_of_str :: "string \<Rightarrow> int option"
  float_of_str :: "string \<Rightarrow> rat option"
  repr :: "json \<Rightarrow> string"
  set_order :: "json list \<Rightarrow> json list"

subsection \<open>Computations that may raise, with and without the generator state\<close>

definition ebind :: "pyerr + 'a \<Rightarrow> ('a \<Rightarrow> pyerr + 'b) \<Rightarrow> pyerr + 'b" where
  "ebind m f = (case m of Inl e \<Rightarrow> Inl e | Inr x \<Rightarrow> f x)"

type_synonym ('r, 'a) gen = "'r \<Rightarrow> (pyerr + 'a) \<times> 'r"

definition greturn :: "'a \<Rightarrow> ('r, 'a) gen" where
  "greturn x s = (Inr x, s)"

definition graise :: "pyerr \<Rightarrow> ('r, 'a) gen" where
  "graise e s = (Inl e, s)"

definition glift :: "pyerr + 'a \<Rightarrow> ('r, 'a) gen" where
  "glift m s = (m, s)"

definition gbind :: "('r, 'a) gen \<Rightarrow> ('a \<Rightarrow> ('r, 'b) gen) \<Rightarrow> ('r, 'b) gen" where
  "gbind m f s = (case m s of (Inl e, s') \<Rightarrow> (Inl e, s') | (Inr x, s') \<Rightarrow> f x s')"

fun emap :: "('a \<Rightarrow> pyerr + 'b) \<Rightarrow> 'a list \<Rightarrow> pyerr + 'b list" where
  "emap f [] = Inr []"
| "emap f (x # xs) = ebind (f x) (\<lambda>y. ebind (emap f xs) (\<lambda>ys. Inr (y # ys)))"

text \<open>Every error a computation can raise satisfies \<open>E\<close>.\<close>

definition eraises_only :: "(pyerr \<Rightarrow> bool) \<Rightarrow> pyerr + 'a \<Rightarrow> bool" where
  "eraises_only E m \<longleftrightarrow> (case m of Inl e \<Rightarrow> E e | Inr _ \<Rightarrow> True)"

definition raises_only :: "(pyerr \<Rightarrow> bool) \<Rightarrow> ('r, 'a) gen \<Rightarrow> bool" where
  "raises_only E m \<longleftrightarrow> (\<forall>s. eraises_only E (fst (m s)))"

fun is_level_not_found :: "pyerr \<Rightarrow> bool" where
  "is_level_not_found (ValueError_level_not_found l) = True"
| "is_level_not_found _ = False"

subsection \<open>The random generator\<close>

definition py_random :: "'r pyrt \<Rightarrow> ('r, rat) gen" where
  "py_random P s = (let (u, s') = rng_random P s in (Inr u, s'))"

definition py_randint :: "'r pyrt \<Rightarrow> int \<Rightarrow> int \<Rightarrow> ('r, int) gen" where
  "py_randint P a b s =
     (if b < a then (Inl ValueError_empty_range, s)
      else let (n, s') = rng_randint P a b s in (Inr n, s'))"

definition py_choice :: "'r pyrt \<Rightarrow> 'a list \<Rightarrow> ('r, 'a) gen" where
  "py_choice P xs s =
     (if xs = [] then (Inl IndexError, s)
      else let (i, s') = rng_choice P (length xs) s in (Inr (xs ! i), s'))"

text \<open>
  \<open>bisect.bisect_right(a, x, lo, hi)\<close> and \<open>random.choices(population, weights, k=1)[0]\<close>,
  after the standard library: the cumulative weights, a \<open>ValueError\<close> when their total is
  not positive (as the library does since Python 3.9; before, it went on and the search
  returned the last candidate), one call of \<open>random()\<close>, a binary search. The cumulative
  weights are exact sums here; the library accumulates doubles, so a total or a draw
  within rounding of a boundary can fall on its other side.
\<close>

function bisect_right :: "rat list \<Rightarrow> rat \<Rightarrow> nat \<Rightarrow> nat \<Rightarrow> nat" where
  "bisect_right a x lo hi =
     (if lo < hi then
        (let mid = (lo + hi) div 2 in
         if x < a ! mid then bisect_right a x lo mid else bisect_right a x (mid + 1) hi)
      else lo)"
  by pat_completeness auto
termination
  by (relation "measure (\<lambda>(a, x, lo, hi). hi - lo)") auto

fun accumulate :: "rat \<Rightarrow> rat list \<Rightarrow> rat list" where
  "accumulate acc [] = []"
| "accumulate acc (w # ws) = (acc + w) # accumulate (acc + w) ws"

definition py_choices :: "'r pyrt \<Rightarrow> 'a list \<Rightarrow> rat list \<Rightarrow> ('r, 'a) gen" where
  "py_choices P population weights s =
     (let cum_weights = accumulate 0 weights; n = length population in
      if length cum_weights \<noteq> n then (Inl ValueError_choices, s)
      else if n = 0 then (Inl IndexError, s)
      else if last cum_weights \<le> 0 then (Inl ValueError_choices, s)
      else let (u, s') = rng_random P s
           in (Inr (population ! bisect_right cum_weights (u * last cum_weights) 0 (n - 1)), s'))"

subsection \<open>Python's operations on values of type Any\<close>

definition dict_get :: "jobj \<Rightarrow> string \<Rightarrow> json \<Rightarrow> json" where
  "dict_get d k dflt = (case map_of d k of None \<Rightarrow> dflt | Some v \<Rightarrow> v)"

definition dict_index :: "jobj \<Rightarrow> string \<Rightarrow> pyerr + json" where
  "dict_index d k = (case map_of d k of None \<Rightarrow> Inl (KeyError k) | Some v \<Rightarrow> Inr v)"

text \<open>
  A value too large for a double: it rounds to infinity. \<open>float\<close> of such an integer
  raises \<open>OverflowError\<close>, and so does \<open>int\<close> of an infinite quotient.
\<close>

definition double_overflows :: "rat \<Rightarrow> bool" where
  "double_overflows x \<longleftrightarrow> 2 ^ 1024 - 2 ^ 970 \<le> \<bar>x\<bar>"

definition py_trunc :: "rat \<Rightarrow> int" where
  "py_trunc x = (if 0 \<le> x then \<lfloor>x\<rfloor> else \<lceil>x\<rceil>)"

fun py_int :: "'r pyrt \<Rightarrow> json \<Rightarrow> pyerr + int" where
  "py_int P (JInt i) = Inr i"
| "py_int P (JFloat x) = Inr (py_trunc x)"
| "py_int P (JBool b) = Inr (if b then 1 else 0)"
| "py_int P (JStr s) = (case int_of_str P s of None \<Rightarrow> Inl ValueError_conversion | Some i \<Rightarrow> Inr i)"
| "py_int P _ = Inl TypeError"

fun py_float :: "'r pyrt \<Rightarrow> json \<Rightarrow> pyerr + rat" where
  "py_float P (JInt i) = (if double_overflows (of_int i) then Inl OverflowError else Inr (of_int i))"
| "py_float P (JFloat x) = Inr x"
| "py_float P (JBool b) = Inr (if b then 1 else 0)"
| "py_float P (JStr s) = (case float_of_str P s of None \<Rightarrow> Inl ValueError_conversion | Some x \<Rightarrow> Inr x)"
| "py_float P _ = Inl TypeError"

text \<open>Truth value, \<open>a or b\<close>, \<open>x.get(k, default)\<close> and iteration, on a value of type Any.\<close>

fun py_truthy :: "json \<Rightarrow> bool" where
  "py_truthy JNull = False"
| "py_truthy (JBool b) = b"
| "py_truthy (JInt i) = (i \<noteq> 0)"
| "py_truthy (JFloat x) = (x \<noteq> 0)"
| "py_truthy (JStr s) = (s \<noteq> [])"
| "py_truthy (JArr xs) = (xs \<noteq> [])"
| "py_truthy (JObj d) = (d \<noteq> [])"

definition py_or :: "json \<Rightarrow> json \<Rightarrow> json" where
  "py_or a b = (if py_truthy a then a else b)"

fun any_get :: "json \<Rightarrow> string \<Rightarrow> json \<Rightarrow> pyerr + json" where
  "any_get (JObj d) k dflt = Inr (dict_get d k dflt)"
| "any_get _ k dflt = Inl AttributeError"

fun py_iter :: "json \<Rightarrow> pyerr + json list" where
  "py_iter (JArr xs) = Inr xs"
| "py_iter (JStr s) = Inr (map (\<lambda>c. JStr [c]) s)"
| "py_iter (JObj d) = Inr (map (\<lambda>(k, v). JStr k) d)"
| "py_iter _ = Inl TypeError"

text \<open>Equality and membership (\<open>x in c\<close>): numbers compare by value, containers by content.\<close>

fun py_num :: "json \<Rightarrow> rat option" where
  "py_num (JBool b) = Some (if b then 1 else 0)"
| "py_num (JInt i) = Some (of_int i)"
| "py_num (JFloat x) = Some x"
| "py_num _ = None"

fun py_eq :: "json \<Rightarrow> json \<Rightarrow> bool" where
  "py_eq (JArr xs) (JArr ys) = list_all2 py_eq xs ys"
| "py_eq (JObj a) (JObj b) =
     (length a = length b \<and>
      list_all (\<lambda>(k, v). case map_of b k of None \<Rightarrow> False | Some w \<Rightarrow> py_eq v w) a)"
| "py_eq (JStr s) (JStr t) = (s = t)"
| "py_eq JNull JNull = True"
| "py_eq x y = (case (py_num x, py_num y) of (Some a, Some b) \<Rightarrow> a = b | _ \<Rightarrow> False)"

fun py_hashable :: "json \<Rightarrow> bool" where
  "py_hashable (JArr xs) = False"
| "py_hashable (JObj d) = False"
| "py_hashable _ = True"

fun is_substring :: "string \<Rightarrow> string \<Rightarrow> bool" where
  "is_substring n [] = (n = [])"
| "is_substring n (c # s) = (take (length n) (c # s) = n \<or> is_substring n s)"

fun py_in :: "json \<Rightarrow> json \<Rightarrow> pyerr + bool" where
  "py_in x (JArr ys) = Inr (list_ex (py_eq x) ys)"
| "py_in x (JStr s) = (case x of JStr n \<Rightarrow> Inr (is_substring n s) | _ \<Rightarrow> Inl TypeError)"
| "py_in x (JObj d) =
     (if py_hashable x then Inr (list_ex (\<lambda>(k, v). py_eq x (JStr k)) d) else Inl TypeError)"
| "py_in x _ = Inl TypeError"

fun efilter :: "('a \<Rightarrow> pyerr + bool) \<Rightarrow> 'a list \<Rightarrow> pyerr + 'a list" where
  "efilter p [] = Inr []"
| "efilter p (x # xs) =
     ebind (p x) (\<lambda>keep. ebind (efilter p xs) (\<lambda>out. Inr (if keep then x # out else out)))"

text \<open>
  \<open>str\<close> of an integer, and \<open>round(x, 2)\<close>: half to even on the exact value, where Python
  rounds the binary double, which can give the other neighbour when the decimal is a tie.
\<close>

function str_nat :: "nat \<Rightarrow> string" where
  "str_nat n =
     (if n < 10 then [''0123456789'' ! n]
      else str_nat (n div 10) @ [''0123456789'' ! (n mod 10)])"
  by pat_completeness auto
termination
  by (relation "measure id") auto

definition str_int :: "int \<Rightarrow> string" where
  "str_int i = (if i < 0 then CHR ''-'' # str_nat (nat (- i)) else str_nat (nat i))"

definition py_str :: "'r pyrt \<Rightarrow> json \<Rightarrow> string" where
  "py_str P v = (case v of JStr s \<Rightarrow> s | JInt i \<Rightarrow> str_int i | _ \<Rightarrow> repr P v)"

definition round_half_even :: "rat \<Rightarrow> int" where
  "round_half_even y =
     (let f = \<lfloor>y\<rfloor>; d = y - of_int f in
      if d < 1 / 2 then f else if 1 / 2 < d then f + 1 else if even f then f else f + 1)"

definition py_round2 :: "rat \<Rightarrow> rat" where
  "py_round2 x = of_int (round_half_even (x * 100)) / 100"

section \<open>lootgen.py\<close>

text \<open>
  The loaded loot tables: the four required keys of loot_data.json, with the types the
  functions below annotate them with.
\<close>

record loot_data =
  coin_values_gp :: "(string \<times> rat) list"
  level_budgets_gp :: jobj
  magic_items :: "jobj list"
  mundane_goods :: "jobj list"

fun filter_magic_by_level :: "'r pyrt \<Rightarrow> jobj list \<Rightarrow> int \<Rightarrow> pyerr + jobj list" where
  "filter_magic_by_level P [] level = Inr []"
| "filter_magic_by_level P (it # items) level =
     ebind (py_int P (dict_get it ''min_level'' (JInt 1))) (\<lambda>lo.
     ebind (py_int P (dict_get it ''max_level'' (JInt 20))) (\<lambda>hi.
     ebind (filter_magic_by_level P items level) (\<lambda>out.
       Inr (if lo \<le> level \<and> level \<le> hi then it # out else out))))"

definition lootgen_weighted_choice :: "'r pyrt \<Rightarrow> jobj list \<Rightarrow> ('r, jobj) gen" where
  "lootgen_weighted_choice P items =
     (if items = [] then greturn []
      else gbind (glift (emap (\<lambda>it. py_float P (dict_get it ''weight'' (JFloat 1))) items))
             (\<lambda>weights. py_choices P items weights))"

text \<open>
  The loop of \<open>_generate_coins\<close> over the sorted denominations; it returns the output
  dictionary together with the budget that remains. The quotient, the product and the
  difference are exact here. On doubles each of them rounds, so the program's quantities
  and remaining budget can differ from these in the last place: for a budget of 0.41 and
  a coin worth 0.01 the program allows 41 coins, and their value as a double,
  0.41000000000000003, is above the budget. Nothing below is proved about the value of
  the coins.
\<close>

fun coins_loop ::
  "'r pyrt \<Rightarrow> (string \<times> rat) list \<Rightarrow> rat \<Rightarrow> (string \<times> int) list
     \<Rightarrow> ('r, (string \<times> int) list \<times> rat) gen" where
  "coins_loop P [] remaining output = greturn (output, remaining)"
| "coins_loop P ((coin, value) # rest) remaining output =
     (if remaining \<le> 0 then greturn (output, remaining)
      else if value = 0 then graise ZeroDivisionError
      else if double_overflows (remaining / value) then graise OverflowError
      else
        let max_qty = py_trunc (remaining / value) in
        if max_qty \<le> 0 then coins_loop P rest remaining output
        else gbind (py_randint P 0 max_qty) (\<lambda>qty.
          if 0 < qty
          then coins_loop P rest (remaining - of_int qty * value) (AList.update coin qty output)
          else coins_loop P rest remaining output))"

definition generate_coins ::
  "'r pyrt \<Rightarrow> (string \<times> rat) list \<Rightarrow> rat \<Rightarrow> ('r, (string \<times> int) list) gen" where
  "generate_coins P coin_values budget_gp =
     (let coins_sorted = sort_key (\<lambda>x. - snd x) coin_values in
      gbind (coins_loop P coins_sorted budget_gp []) (\<lambda>(output, remaining). greturn output))"

text \<open>The GP value of a coin dictionary (the first loop of \<open>_calculate_parcel_value\<close>).\<close>

definition coins_value :: "(string \<times> rat) list \<Rightarrow> (string \<times> int) list \<Rightarrow> rat" where
  "coins_value coin_values coins =
     sum_list (map (\<lambda>(denom, count).
       (case map_of coin_values denom of None \<Rightarrow> 0 | Some v \<Rightarrow> v) * of_int count) coins)"

definition calculate_parcel_value ::
  "'r pyrt \<Rightarrow> (string \<times> int) list \<Rightarrow> jobj list \<Rightarrow> jobj list \<Rightarrow> (string \<times> rat) list
     \<Rightarrow> pyerr + rat" where
  "calculate_parcel_value P coins magic mundane coin_values =
     ebind (emap (\<lambda>item. py_float P (dict_get item ''gp_value'' (JFloat 0))) magic) (\<lambda>ms.
     ebind (emap (\<lambda>item. py_float P (dict_get item ''gp_value'' (JFloat 0))) mundane) (\<lambda>ns.
       Inr (coins_value coin_values coins + sum_list ms + sum_list ns)))"

definition magic_entry :: "'r pyrt \<Rightarrow> jobj \<Rightarrow> pyerr + jobj" where
  "magic_entry P item =
     ebind (dict_index item ''id'') (\<lambda>id.
     ebind (dict_index item ''name'') (\<lambda>name.
     ebind (ebind (dict_index item ''gp_value'') (py_float P)) (\<lambda>gp.
       Inr [(''id'', id), (''name'', name),
            (''rarity'', dict_get item ''rarity'' (JStr ''common'')),
            (''gp_value'', JFloat gp)])))"

definition mundane_entry :: "'r pyrt \<Rightarrow> jobj \<Rightarrow> pyerr + jobj" where
  "mundane_entry P item =
     ebind (dict_index item ''id'') (\<lambda>id.
     ebind (dict_index item ''name'') (\<lambda>name.
     ebind (ebind (dict_index item ''gp_value'') (py_float P)) (\<lambda>gp.
       Inr [(''id'', id), (''name'', name), (''gp_value'', JFloat gp)])))"

text \<open>
  \<open>LootGenerator._generate_parcel\<close>. The literals \<open>0.20\<close> and \<open>0.4\<close> are \<open>1 / 5\<close> and
  \<open>2 / 5\<close>; a draw of \<open>random()\<close> is a multiple of \<open>2\<^sup>-\<^sup>5\<^sup>3\<close>, and such a number is
  below the double \<open>0.4\<close> exactly when it is below \<open>2 / 5\<close>.
\<close>

definition generate_parcel ::
  "'r pyrt \<Rightarrow> loot_data \<Rightarrow> int \<Rightarrow> rat \<Rightarrow> jobj list \<Rightarrow> ('r, json) gen" where
  "generate_parcel P data level base_budget magic_pool =
     (let coin_budget = base_budget * (1 / 5) in
      gbind (generate_coins P (coin_values_gp data) coin_budget) (\<lambda>coins.
      gbind (py_random P) (\<lambda>u.
      gbind
        (if u < 2 / 5 \<and> magic_pool \<noteq> [] then
           gbind (lootgen_weighted_choice P magic_pool) (\<lambda>item.
           gbind (glift (magic_entry P item)) (\<lambda>e. greturn ([e], [])))
         else
           gbind (lootgen_weighted_choice P (mundane_goods data)) (\<lambda>item.
           gbind (glift (mundane_entry P item)) (\<lambda>e. greturn ([], [e]))))
        (\<lambda>(magic, mundane).
      gbind (glift (calculate_parcel_value P coins magic mundane (coin_values_gp data))) (\<lambda>total.
        greturn (JObj
          [(''coins'', JObj (map (\<lambda>(c, q). (c, JInt q)) coins)),
           (''magic_items'', JArr (map JObj magic)),
           (''mundane_items'', JArr (map JObj mundane)),
           (''total_value_gp'', JFloat (py_round2 total))]))))))"

fun parcels_loop ::
  "'r pyrt \<Rightarrow> loot_data \<Rightarrow> int \<Rightarrow> rat \<Rightarrow> jobj list \<Rightarrow> nat \<Rightarrow> ('r, json list) gen" where
  "parcels_loop P data level base_budget magic_pool 0 = greturn []"
| "parcels_loop P data level base_budget magic_pool (Suc n) =
     gbind (generate_parcel P data level base_budget magic_pool) (\<lambda>parcel.
     gbind (parcels_loop P data level base_budget magic_pool n) (\<lambda>parcels.
       greturn (parcel # parcels)))"

text \<open>
  \<open>LootGenerator.generate\<close>, run on the generator state \<open>self.rng\<close>; \<open>seed\<close> is
  \<open>self.seed\<close>, an integer (a generator made with \<open>seed=None\<close> draws its seed from the
  global generator of the process, which is not modelled).
\<close>

definition generate :: "'r pyrt \<Rightarrow> loot_data \<Rightarrow> int \<Rightarrow> int \<Rightarrow> int \<Rightarrow> ('r, json) gen" where
  "generate P data seed level rolls0 =
     (let rolls = max 1 rolls0 in
      if map_of (level_budgets_gp data) (str_int level) = None
      then graise (ValueError_level_not_found level)
      else
        gbind (glift (ebind (dict_index (level_budgets_gp data) (str_int level)) (py_float P)))
          (\<lambda>base_budget.
        gbind (glift (filter_magic_by_level P (magic_items data) level)) (\<lambda>magic_pool.
        gbind (parcels_loop P data level base_budget magic_pool (nat rolls)) (\<lambda>parcels.
          greturn (JObj
            [(''schema'', JStr ''loot.v1''),
             (''seed'', JInt seed),
             (''encounter_level'', JInt level),
             (''rolls'', JInt rolls),
             (''parcels'', JArr parcels)])))))"

text \<open>
  \<open>generate_loot\<close> on tables that are already loaded (reading the file, and its
  failures, are outside the model): a fresh generator seeded with \<open>seed\<close>, one call of
  \<open>generate\<close>.
\<close>

definition generate_loot :: "'r pyrt \<Rightarrow> loot_data \<Rightarrow> int \<Rightarrow> int \<Rightarrow> int \<Rightarrow> pyerr + json" where
  "generate_loot P data level rolls seed = fst (generate P data seed level rolls (rng_seed P seed))"

section \<open>encountergen.py\<close>

text \<open>
  \<open>_weighted_choice\<close> of encountergen.py, on pairs of a candidate and its weight. The
  total and the running sum are exact here; on doubles they round, so a draw within
  rounding of a boundary can select the neighbouring candidate. The branch for a total
  that is not positive is the same on doubles: a sum of doubles that are each at least 0
  is 0 exactly when each of them is.
\<close>

fun weighted_scan :: "rat \<Rightarrow> rat \<Rightarrow> ('a \<times> rat) list \<Rightarrow> 'a option" where
  "weighted_scan r acc [] = None"
| "weighted_scan r acc ((item, weight) # rest) =
     (let acc' = acc + max 0 weight in
      if r \<le> acc' then Some item else weighted_scan r acc' rest)"

definition encountergen_weighted_choice :: "'r pyrt \<Rightarrow> ('a \<times> rat) list \<Rightarrow> ('r, 'a) gen" where
  "encountergen_weighted_choice P items =
     (let total = sum_list (map (\<lambda>(_, w). max 0 w) items) in
      if total \<le> 0 then
        (case items of [] \<Rightarrow> graise IndexError | (item, _) # _ \<Rightarrow> greturn item)
      else gbind (py_random P) (\<lambda>u.
        let r = u * total in
        (case weighted_scan r 0 items of
           Some item \<Rightarrow> greturn item
         | None \<Rightarrow> greturn (fst (last items)))))"


text \<open>The eleven loaded tables (\<open>Tables\<close>); a file that is optional and absent loads as \<open>{}\<close>.\<close>

record tables =
  encounter_types :: jobj
  five_room_progression :: jobj
  combat_budgets :: jobj
  encounter_templates :: jobj
  enemy_groups :: jobj
  monsters :: jobj
  factions :: jobj
  environment_presets :: jobj
  puzzle_tables :: jobj
  social_tables :: jobj
  exploration_tables :: jobj

definition clamp_level :: "'r pyrt \<Rightarrow> int \<Rightarrow> jobj \<Rightarrow> int" where
  "clamp_level P level budgets =
     (let keys =
        (case dict_get budgets ''budgets'' (JObj []) of
           JObj b \<Rightarrow>
             (case emap (\<lambda>k. py_int P (JStr k)) (map fst b) of Inl _ \<Rightarrow> [] | Inr ks \<Rightarrow> ks)
         | _ \<Rightarrow> [])
      in case keys of
           [] \<Rightarrow> max 1 level
         | k # ks \<Rightarrow>
             let min_lvl = fold min ks k; max_lvl = fold max ks k in
             if level < min_lvl then min_lvl
             else if max_lvl < level then max_lvl
             else level)"

fun index_loop :: "json list \<Rightarrow> string \<Rightarrow> (string \<times> jobj) list \<Rightarrow> pyerr + (string \<times> jobj) list" where
  "index_loop [] key out = Inr out"
| "index_loop (it # items) key out =
     (case it of
        JObj d \<Rightarrow>
          index_loop items key
            (case dict_get d key JNull of JStr id_val \<Rightarrow> AList.update id_val d out | _ \<Rightarrow> out)
      | _ \<Rightarrow> Inl AttributeError)"

definition index_by_id :: "json \<Rightarrow> string \<Rightarrow> pyerr + (string \<times> jobj) list" where
  "index_by_id items key = ebind (py_iter items) (\<lambda>xs. index_loop xs key [])"

text \<open>\<open>index.get(k)\<close> for a key of type Any: a key that cannot be hashed raises.\<close>

definition index_get :: "(string \<times> jobj) list \<Rightarrow> json \<Rightarrow> pyerr + jobj option" where
  "index_get idx k =
     (if \<not> py_hashable k then Inl TypeError
      else case k of JStr id_val \<Rightarrow> Inr (map_of idx id_val) | _ \<Rightarrow> Inr None)"

text \<open>
  An \<open>EncounterGenerator\<close> without its random generator, whose state is passed along
  instead. \<open>loot_tables\<close> is what \<open>generate_loot\<close> loads from \<open>loot_data_dir\<close> and
  \<open>loot_data_file\<close>.
\<close>

record encounter_generator =
  tables :: tables
  seed :: int
  loot_tables :: loot_data
  monster_index :: "(string \<times> jobj) list"
  enemy_group_index :: "(string \<times> jobj) list"
  faction_index :: "(string \<times> jobj) list"
  env_index :: "(string \<times> jobj) list"

definition encounter_generator_init :: "tables \<Rightarrow> int \<Rightarrow> loot_data \<Rightarrow> pyerr + encounter_generator" where
  "encounter_generator_init T sd loot =
     ebind (index_by_id (dict_get (monsters T) ''monsters'' (JArr [])) ''id'') (\<lambda>mi.
     ebind (index_by_id (dict_get (enemy_groups T) ''groups'' (JArr [])) ''id'') (\<lambda>gi.
     ebind (index_by_id (dict_get (factions T) ''factions'' (JArr [])) ''id'') (\<lambda>fi.
     ebind (index_by_id (dict_get (environment_presets T) ''presets'' (JArr [])) ''id'') (\<lambda>ei.
       Inr \<lparr>tables = T, seed = sd, loot_tables = loot, monster_index = mi,
            enemy_group_index = gi, faction_index = fi, env_index = ei\<rparr>))))"

subsection \<open>Encounter type selection\<close>

text \<open>\<open>"any" in c or x in c\<close>.\<close>

definition matches_any :: "json \<Rightarrow> string \<Rightarrow> pyerr + bool" where
  "matches_any c x =
     ebind (py_in (JStr ''any'') c) (\<lambda>a. if a then Inr True else py_in (JStr x) c)"

definition type_table_matches :: "json \<Rightarrow> string \<Rightarrow> string \<Rightarrow> pyerr + bool" where
  "type_table_matches t biome slot =
     ebind (any_get t ''biomes'' JNull) (\<lambda>bv.
     ebind (any_get t ''slots'' JNull) (\<lambda>sv.
     ebind (matches_any (py_or bv (JArr [JStr ''any''])) biome) (\<lambda>biome_ok.
     ebind (matches_any (py_or sv (JArr [JStr ''any''])) slot) (\<lambda>slot_ok.
       Inr (biome_ok \<and> slot_ok)))))"

fun rows_lookup :: "'r pyrt \<Rightarrow> json list \<Rightarrow> int \<Rightarrow> pyerr + string" where
  "rows_lookup P [] roll = Inr ''combat''"
| "rows_lookup P (row # rows) roll =
     ebind (any_get row ''max'' (JInt 1)) (\<lambda>mx.
     ebind (ebind (any_get row ''min'' mx) (py_int P)) (\<lambda>rmin.
     ebind (ebind (any_get row ''max'' (JInt rmin)) (py_int P)) (\<lambda>rmax.
       if rmin \<le> roll \<and> roll \<le> rmax
       then ebind (any_get row ''type'' (JStr ''combat'')) (\<lambda>t. Inr (py_str P t))
       else rows_lookup P rows roll)))"

definition choose_encounter_type ::
  "'r pyrt \<Rightarrow> encounter_generator \<Rightarrow> string \<Rightarrow> string \<Rightarrow> ('r, string) gen" where
  "choose_encounter_type P G slot biome =
     (let data = encounter_types (tables G);
          tbls = py_or (dict_get data ''tables'' JNull) (JArr [])
      in
      if \<not> py_truthy tbls then greturn ''combat''
      else
        gbind (glift (ebind (py_iter tbls) (\<lambda>ts.
               ebind (efilter (\<lambda>t. type_table_matches t biome slot) ts) (\<lambda>cs.
                 Inr (if cs = [] then ts else cs))))) (\<lambda>candidates.
        gbind (py_choice P candidates) (\<lambda>table.
        gbind (glift (ebind (any_get table ''die'' (JInt 20)) (py_int P))) (\<lambda>die.
        gbind (py_randint P 1 (max 1 die)) (\<lambda>roll.
        glift (ebind (any_get table ''rows'' JNull) (\<lambda>rv.
               ebind (py_iter (py_or rv (JArr []))) (\<lambda>rows. rows_lookup P rows roll))))))))"

subsection \<open>Candidate templates\<close>

text \<open>
  The body of the filter loop, which \<open>_generate_combat_encounter\<close> and
  \<open>_generate_noncombat_encounter\<close> both contain: does the template pass the biome, the
  slot and the level gate?
\<close>

definition template_matches :: "'r pyrt \<Rightarrow> json \<Rightarrow> int \<Rightarrow> string \<Rightarrow> string \<Rightarrow> pyerr + bool" where
  "template_matches P tpl level biome slot =
     ebind (any_get tpl ''biomes'' JNull) (\<lambda>bv.
     ebind (any_get tpl ''slots'' JNull) (\<lambda>sv.
     ebind (ebind (any_get tpl ''min_level'' (JInt 1)) (py_int P)) (\<lambda>min_level.
     ebind (ebind (any_get tpl ''max_level'' (JInt 99)) (py_int P)) (\<lambda>max_level.
     ebind (matches_any (py_or bv (JArr [JStr ''any''])) biome) (\<lambda>biome_ok.
       if \<not> biome_ok then Inr False
       else ebind (matches_any (py_or sv (JArr [JStr ''any''])) slot) (\<lambda>slot_ok.
         if \<not> slot_ok then Inr False
         else Inr (min_level \<le> level \<and> level \<le> max_level)))))))"

definition template_candidates ::
  "'r pyrt \<Rightarrow> json \<Rightarrow> int \<Rightarrow> string \<Rightarrow> string \<Rightarrow> pyerr + json list" where
  "template_candidates P templates level biome slot =
     ebind (py_iter templates) (efilter (\<lambda>tpl. template_matches P tpl level biome slot))"

subsection \<open>Faction weights\<close>

text \<open>\<open>if key in mods: try: weight *= float(mods[key]) except (TypeError, ValueError): pass\<close>.\<close>

definition faction_modifier :: "'r pyrt \<Rightarrow> json \<Rightarrow> string \<Rightarrow> rat \<Rightarrow> pyerr + rat" where
  "faction_modifier P mods key weight =
     ebind (py_in (JStr key) mods) (\<lambda>present.
       if \<not> present then Inr weight
       else
         (case mods of
            JObj d \<Rightarrow>
              (case map_of d key of
                 None \<Rightarrow> Inl (KeyError key)
               | Some v \<Rightarrow> (case py_float P v of Inl _ \<Rightarrow> Inr weight | Inr x \<Rightarrow> Inr (weight * x)))
          | _ \<Rightarrow> Inr weight))"

fun faction_loop ::
  "'r pyrt \<Rightarrow> (string \<times> jobj) list \<Rightarrow> json list \<Rightarrow> string \<Rightarrow> string \<Rightarrow> rat \<Rightarrow> pyerr + rat" where
  "faction_loop P idx [] slot biome weight = Inr weight"
| "faction_loop P idx (fid # fids) slot biome weight =
     ebind (index_get idx fid) (\<lambda>f.
       case f of
         None \<Rightarrow> faction_loop P idx fids slot biome weight
       | Some fd \<Rightarrow>
           if fd = [] then faction_loop P idx fids slot biome weight
           else
             let mods = py_or (dict_get fd ''weight_modifiers'' JNull) (JObj []) in
             ebind (any_get mods ''biomes'' JNull) (\<lambda>bm.
             ebind (any_get mods ''slots'' JNull) (\<lambda>sm.
             ebind (faction_modifier P (py_or bm (JObj [])) biome weight) (\<lambda>w1.
             ebind (faction_modifier P (py_or sm (JObj [])) slot w1) (\<lambda>w2.
               faction_loop P idx fids slot biome w2)))))"

definition compute_faction_weight ::
  "'r pyrt \<Rightarrow> encounter_generator \<Rightarrow> json \<Rightarrow> string \<Rightarrow> string \<Rightarrow> pyerr + rat" where
  "compute_faction_weight P G template slot biome =
     ebind (any_get template ''factions'' JNull) (\<lambda>fv.
       let facs = py_or fv (JArr []) in
       if \<not> py_truthy facs \<or> faction_index G = [] then Inr 1
       else
         ebind (py_iter facs) (\<lambda>fids.
         ebind (faction_loop P (faction_index G) fids slot biome 1) (\<lambda>weight.
           Inr (if 0 < weight then weight else 1))))"

subsection \<open>Environment selection\<close>

definition neutral_environment :: json where
  "neutral_environment =
     JObj [(''preset_id'', JNull), (''description'', JStr []), (''tags'', JArr []),
           (''mechanical_effects'', JObj [])]"

definition env_descriptor :: "json \<Rightarrow> pyerr + json" where
  "env_descriptor env =
     ebind (any_get env ''id'' JNull) (\<lambda>i.
     ebind (any_get env ''description'' (JStr [])) (\<lambda>d.
     ebind (any_get env ''tags'' (JArr [])) (\<lambda>t.
     ebind (any_get env ''mechanical_effects'' (JObj [])) (\<lambda>m.
       Inr (JObj [(''preset_id'', i), (''description'', d), (''tags'', t),
                  (''mechanical_effects'', m)])))))"

text \<open>\<open>any(t in env_tags for t in tags)\<close>, which stops at the first hit.\<close>

fun any_tag_in :: "json list \<Rightarrow> json \<Rightarrow> pyerr + bool" where
  "any_tag_in [] env_tags = Inr False"
| "any_tag_in (t # ts) env_tags =
     ebind (py_in t env_tags) (\<lambda>b. if b then Inr True else any_tag_in ts env_tags)"

definition env_matches :: "json \<Rightarrow> string \<Rightarrow> json \<Rightarrow> pyerr + bool" where
  "env_matches env biome tags =
     ebind (any_get env ''biomes'' JNull) (\<lambda>bv.
     ebind (any_get env ''tags'' JNull) (\<lambda>tv.
     ebind (matches_any (py_or bv (JArr [JStr ''any''])) biome) (\<lambda>biome_ok.
     ebind (if \<not> py_truthy tags then Inr True
            else ebind (py_iter tags) (\<lambda>ts. any_tag_in ts (py_or tv (JArr [])))) (\<lambda>tag_match.
       Inr (biome_ok \<and> tag_match)))))"

definition select_environment ::
  "'r pyrt \<Rightarrow> encounter_generator \<Rightarrow> string \<Rightarrow> json \<Rightarrow> json \<Rightarrow> ('r, json) gen" where
  "select_environment P G biome tags specific_id =
     (let presets = py_or (dict_get (environment_presets (tables G)) ''presets'' JNull) (JArr []) in
      if \<not> py_truthy presets then greturn neutral_environment
      else
        gbind (glift (if py_truthy specific_id then index_get (env_index G) specific_id
                      else Inr None)) (\<lambda>found.
          case found of
            Some (e # env) \<Rightarrow> glift (env_descriptor (JObj (e # env)))
          | _ \<Rightarrow>
              gbind (glift (ebind (py_iter presets) (\<lambda>ps.
                     ebind (efilter (\<lambda>env. env_matches env biome tags) ps) (\<lambda>cs.
                       Inr (if cs = [] then ps else cs))))) (\<lambda>candidates.
              gbind (py_choice P candidates) (\<lambda>env. glift (env_descriptor env)))))"

subsection \<open>Enemy groups\<close>

fun enemies_loop ::
  "'r pyrt \<Rightarrow> encounter_generator \<Rightarrow> jobj \<Rightarrow> json list \<Rightarrow> ('r, json list) gen" where
  "enemies_loop P G grp [] = greturn []"
| "enemies_loop P G grp (entry # entries) =
     gbind (glift (any_get entry ''monster_id'' JNull)) (\<lambda>monster_id.
     gbind (glift (any_get entry ''count'' JNull)) (\<lambda>cv.
     gbind (glift (ebind (any_get (py_or cv (JObj [])) ''min'' (JInt 1)) (py_int P))) (\<lambda>cmin.
     gbind (glift (ebind (any_get (py_or cv (JObj [])) ''max'' (JInt cmin)) (py_int P))) (\<lambda>cmax.
     gbind (py_randint P cmin (if cmax < cmin then cmin else cmax)) (\<lambda>count.
       if count \<le> 0 then enemies_loop P G grp entries
       else
         gbind (glift (index_get (monster_index G) monster_id)) (\<lambda>m.
           let monster = (case m of None \<Rightarrow> [] | Some d \<Rightarrow> d) in
           gbind (enemies_loop P G grp entries) (\<lambda>out.
             greturn (JObj
               [(''monster_id'', monster_id),
                (''name'', dict_get monster ''name'' monster_id),
                (''count'', JInt count),
                (''cr'', dict_get monster ''cr'' JNull),
                (''faction'', dict_get monster ''faction'' (dict_get grp ''faction'' JNull)),
                (''tags'', dict_get monster ''tags'' (JArr []))] # out))))))))"

definition instantiate_enemy_group ::
  "'r pyrt \<Rightarrow> encounter_generator \<Rightarrow> json \<Rightarrow> int \<Rightarrow> ('r, json list) gen" where
  "instantiate_enemy_group P G group_id room_level =
     (if \<not> py_truthy group_id then graise ValueError_missing_enemy_group_id
      else
        gbind (glift (index_get (enemy_group_index G) group_id)) (\<lambda>found.
          case found of
            Some (e # grp) \<Rightarrow>
              gbind (glift (py_iter (py_or (dict_get (e # grp) ''enemies'' JNull) (JArr []))))
                (\<lambda>entries. enemies_loop P G (e # grp) entries)
          | _ \<Rightarrow> graise (ValueError_enemy_group_not_found group_id)))"

subsection \<open>Encounters\<close>

text \<open>\<open>list(set(a + b))\<close>: the sum is a list or a string, the elements must be hashable.\<close>

definition merge_tags :: "'r pyrt \<Rightarrow> json \<Rightarrow> json \<Rightarrow> pyerr + json list" where
  "merge_tags P a b =
     (case (a, b) of
        (JArr xs, JArr ys) \<Rightarrow>
          if list_all py_hashable (xs @ ys) then Inr (set_order P (xs @ ys)) else Inl TypeError
      | (JStr u, JStr v) \<Rightarrow> Inr (set_order P (map (\<lambda>c. JStr [c]) (u @ v)))
      | _ \<Rightarrow> Inl TypeError)"

definition encounter_tags :: "'r pyrt \<Rightarrow> json \<Rightarrow> json \<Rightarrow> pyerr + json list" where
  "encounter_tags P template env =
     ebind (any_get template ''tags'' JNull) (\<lambda>tt.
     ebind (any_get env ''tags'' (JArr [])) (\<lambda>et.
       merge_tags P (py_or tt (JArr [])) et))"

text \<open>
  \<open>generate_loot(level, rolls=int(template.get("loot_rolls", 1)),
  seed=self.rng.randint(0, 999_999), ...)\<close>.
\<close>

definition encounter_loot ::
  "'r pyrt \<Rightarrow> encounter_generator \<Rightarrow> json \<Rightarrow> int \<Rightarrow> ('r, json) gen" where
  "encounter_loot P G template level =
     gbind (glift (ebind (any_get template ''loot_rolls'' (JInt 1)) (py_int P))) (\<lambda>rolls.
     gbind (py_randint P 0 999999) (\<lambda>sub_seed.
       glift (generate_loot P (loot_tables G) level rolls sub_seed)))"

definition combat_weights ::
  "'r pyrt \<Rightarrow> encounter_generator \<Rightarrow> json list \<Rightarrow> string \<Rightarrow> string \<Rightarrow> pyerr + (json \<times> rat) list" where
  "combat_weights P G candidates slot biome =
     emap (\<lambda>tpl.
       ebind (ebind (any_get tpl ''weight'' (JFloat 1)) (py_float P)) (\<lambda>base_weight.
       ebind (compute_faction_weight P G tpl slot biome) (\<lambda>fw.
         let weight = base_weight * fw in Inr (tpl, if 0 < weight then weight else 0))))
       candidates"

definition generate_combat_encounter ::
  "'r pyrt \<Rightarrow> encounter_generator \<Rightarrow> int \<Rightarrow> string \<Rightarrow> string \<Rightarrow> ('r, json) gen" where
  "generate_combat_encounter P G level biome slot =
     (let templates =
        py_or (dict_get (encounter_templates (tables G)) ''encounter_tables'' JNull) (JArr [])
      in
      if \<not> py_truthy templates then graise ValueError_no_templates_defined
      else
        gbind (glift (template_candidates P templates level biome slot)) (\<lambda>candidates.
          if candidates = [] then graise (ValueError_no_templates_match level biome slot)
          else
            gbind (glift (combat_weights P G candidates slot biome)) (\<lambda>weighted.
            gbind (encountergen_weighted_choice P weighted) (\<lambda>template.
            gbind (glift (any_get template ''enemy_group_id'' JNull)) (\<lambda>enemy_group_id.
            gbind (instantiate_enemy_group P G enemy_group_id level) (\<lambda>enemies.
            gbind (glift (any_get template ''environment_tags'' JNull)) (\<lambda>et.
            gbind (select_environment P G biome (py_or et (JArr [])) JNull) (\<lambda>env.
            gbind (glift (encounter_tags P template env)) (\<lambda>tags.
            gbind (encounter_loot P G template level) (\<lambda>loot.
            gbind (glift (any_get template ''id'' JNull)) (\<lambda>template_id.
            gbind (glift (any_get template ''notes'' (JStr []))) (\<lambda>notes.
              greturn (JObj
                [(''difficulty'', JInt level),
                 (''type'', JStr ''combat''),
                 (''slot'', JStr slot),
                 (''biome'', JStr biome),
                 (''enemies'', JArr enemies),
                 (''environment'', env),
                 (''tags'', JArr tags),
                 (''loot'', loot),
                 (''meta'', JObj
                    [(''template_id'', template_id),
                     (''noncombat_id'', JNull),
                     (''notes'', notes)])])))))))))))))"

definition generate_empty_encounter :: "int \<Rightarrow> string \<Rightarrow> string \<Rightarrow> json" where
  "generate_empty_encounter level biome slot =
     JObj
       [(''difficulty'', JInt level),
        (''type'', JStr ''empty''),
        (''slot'', JStr slot),
        (''biome'', JStr biome),
        (''enemies'', JArr []),
        (''environment'', JObj
           [(''preset_id'', JNull), (''description'', JStr []), (''tags'', JArr []),
            (''mechanical_effects'', JObj [])]),
        (''tags'', JArr []),
        (''loot'', JNull),
        (''meta'', JObj
           [(''template_id'', JNull), (''noncombat_id'', JNull), (''notes'', JStr [])])]"

definition noncombat_table :: "encounter_generator \<Rightarrow> string \<Rightarrow> jobj option" where
  "noncombat_table G enc_type =
     (if enc_type = ''puzzle'' then Some (puzzle_tables (tables G))
      else if enc_type = ''social'' then Some (social_tables (tables G))
      else if enc_type = ''exploration'' then Some (exploration_tables (tables G))
      else None)"

definition generate_noncombat_encounter ::
  "'r pyrt \<Rightarrow> encounter_generator \<Rightarrow> int \<Rightarrow> string \<Rightarrow> string \<Rightarrow> string \<Rightarrow> ('r, json) gen" where
  "generate_noncombat_encounter P G level biome slot enc_type =
     (case noncombat_table G enc_type of
        None \<Rightarrow> greturn (generate_empty_encounter level biome slot)
      | Some table \<Rightarrow>
          let entries = py_or (dict_get table ''entries'' JNull) (JArr []) in
          if \<not> py_truthy entries then greturn (generate_empty_encounter level biome slot)
          else
            gbind (glift (template_candidates P entries level biome slot)) (\<lambda>candidates.
              if candidates = [] then greturn (generate_empty_encounter level biome slot)
              else
                gbind (glift (emap (\<lambda>tpl.
                         ebind (ebind (any_get tpl ''weight'' (JFloat 1)) (py_float P))
                           (\<lambda>base_weight. Inr (tpl, base_weight))) candidates)) (\<lambda>weighted.
                gbind (encountergen_weighted_choice P weighted) (\<lambda>template.
                gbind (glift (any_get template ''environment_preset_id'' JNull)) (\<lambda>env_preset_id.
                gbind (glift (any_get template ''environment_tags'' JNull)) (\<lambda>et.
                gbind (select_environment P G biome (py_or et (JArr [])) env_preset_id) (\<lambda>env.
                gbind (glift (encounter_tags P template env)) (\<lambda>tags.
                gbind (glift (any_get template ''award_loot'' (JBool False))) (\<lambda>award_loot.
                gbind (if py_truthy award_loot then encounter_loot P G template level
                       else greturn JNull) (\<lambda>loot.
                gbind (glift (any_get template ''id'' JNull)) (\<lambda>noncombat_id.
                gbind (glift (any_get template ''notes'' (JStr []))) (\<lambda>notes.
                  greturn (JObj
                    [(''difficulty'', JInt level),
                     (''type'', JStr enc_type),
                     (''slot'', JStr slot),
                     (''biome'', JStr biome),
                     (''enemies'', JArr []),
                     (''environment'', env),
                     (''tags'', JArr tags),
                     (''loot'', loot),
                     (''meta'', JObj
                        [(''template_id'', JNull),
                         (''noncombat_id'', noncombat_id),
                         (''notes'', notes)])])))))))))))))"

definition generate_encounter_internal ::
  "'r pyrt \<Rightarrow> encounter_generator \<Rightarrow> int \<Rightarrow> string \<Rightarrow> string \<Rightarrow> ('r, json) gen" where
  "generate_encounter_internal P G level biome slot =
     gbind (choose_encounter_type P G slot biome) (\<lambda>enc_type.
       if enc_type = ''combat'' then generate_combat_encounter P G level biome slot
       else if enc_type \<in> {''puzzle'', ''social'', ''exploration''}
       then generate_noncombat_encounter P G level biome slot enc_type
       else greturn (generate_empty_encounter level biome slot))"

definition generate_single_encounter ::
  "'r pyrt \<Rightarrow> encounter_generator \<Rightarrow> int \<Rightarrow> string \<Rightarrow> string \<Rightarrow> ('r, json) gen" where
  "generate_single_encounter P G level biome slot =
     gbind (generate_encounter_internal P G level biome slot) (\<lambda>encounter.
       greturn (JObj
         [(''schema'', JStr ''encounter.v1''),
          (''seed'', JInt (seed G)),
          (''encounter'', encounter)]))"

subsection \<open>Five-room orchestration\<close>

text \<open>The level of a room: the slot's \<open>difficulty_delta\<close> added to the base level, clamped.\<close>

definition room_level ::
  "'r pyrt \<Rightarrow> encounter_generator \<Rightarrow> json \<Rightarrow> int \<Rightarrow> string \<Rightarrow> pyerr + int" where
  "room_level P G slot_defs base_level slot =
     ebind (any_get slot_defs slot (JObj [])) (\<lambda>delta_cfg.
     ebind (ebind (any_get delta_cfg ''difficulty_delta'' (JInt 0)) (py_int P)) (\<lambda>delta.
       Inr (clamp_level P (base_level + delta) (combat_budgets (tables G)))))"

fun rooms_loop ::
  "'r pyrt \<Rightarrow> encounter_generator \<Rightarrow> json \<Rightarrow> int \<Rightarrow> string \<Rightarrow> nat \<Rightarrow> string list
     \<Rightarrow> ('r, json list) gen" where
  "rooms_loop P G slot_defs base_level biome idx [] = greturn []"
| "rooms_loop P G slot_defs base_level biome idx (slot # slots) =
     gbind (glift (room_level P G slot_defs base_level slot)) (\<lambda>lvl.
     gbind (generate_encounter_internal P G lvl biome slot) (\<lambda>encounter.
     gbind (rooms_loop P G slot_defs base_level biome (Suc idx) slots) (\<lambda>rooms.
       greturn (JObj
         [(''slot'', JStr slot),
          (''room_index'', JInt (int idx)),
          (''encounter'', encounter)] # rooms))))"

definition default_slots :: "'r pyrt \<Rightarrow> jobj \<Rightarrow> json \<Rightarrow> pyerr + string list" where
  "default_slots P prog slot_defs =
     (case dict_get prog ''default_order'' JNull of
        JArr (d # ds) \<Rightarrow> Inr (map (py_str P) (d # ds))
      | _ \<Rightarrow> (case slot_defs of JObj sd \<Rightarrow> Inr (map fst sd) | _ \<Rightarrow> Inl AttributeError))"

definition generate_five_room_dungeon ::
  "'r pyrt \<Rightarrow> encounter_generator \<Rightarrow> int \<Rightarrow> string \<Rightarrow> string list option \<Rightarrow> ('r, json) gen" where
  "generate_five_room_dungeon P G base_level biome slots =
     (let prog = five_room_progression (tables G);
          slot_defs = py_or (dict_get prog ''slots'' JNull) (JObj [])
      in
      gbind (glift (case slots of None \<Rightarrow> default_slots P prog slot_defs | Some sl \<Rightarrow> Inr sl))
        (\<lambda>sl.
      gbind (rooms_loop P G slot_defs base_level biome 1 sl) (\<lambda>rooms.
        greturn (JObj
          [(''schema'', JStr ''dungeon.5room.v1''),
           (''seed'', JInt (seed G)),
           (''biome'', JStr biome),
           (''base_level'', JInt base_level),
           (''rooms'', JArr rooms)]))))"

subsection \<open>The public entry points, on loaded tables\<close>

definition api_generate_five_room_dungeon ::
  "'r pyrt \<Rightarrow> tables \<Rightarrow> loot_data \<Rightarrow> int \<Rightarrow> string \<Rightarrow> int \<Rightarrow> pyerr + json" where
  "api_generate_five_room_dungeon P T loot base_level biome sd =
     ebind (encounter_generator_init T sd loot) (\<lambda>G.
       fst (generate_five_room_dungeon P G base_level biome None (rng_seed P sd)))"

definition api_generate_single_encounter ::
  "'r pyrt \<Rightarrow> tables \<Rightarrow> loot_data \<Rightarrow> int \<Rightarrow> string \<Rightarrow> string \<Rightarrow> int \<Rightarrow> pyerr + json" where
  "api_generate_single_encounter P T loot level biome slot sd =
     ebind (encounter_generator_init T sd loot) (\<lambda>G.
       fst (generate_single_encounter P G level biome slot (rng_seed P sd)))"

section \<open>The level gate, in the words of the specification\<close>

text \<open>
  \<open>min_level \<le> level \<le> max_level\<close>, where an absent \<open>min_level\<close> is 1 and an absent
  \<open>max_level\<close> is \<open>default_max\<close>.
\<close>

definition within_level_gate :: "'r pyrt \<Rightarrow> jobj \<Rightarrow> int \<Rightarrow> int \<Rightarrow> bool" where
  "within_level_gate P entry default_max level =
     (case (py_int P (dict_get entry ''min_level'' (JInt 1)),
            py_int P (dict_get entry ''max_level'' (JInt default_max))) of
        (Inr lo, Inr hi) \<Rightarrow> lo \<le> level \<and> level \<le> hi
      | _ \<Rightarrow> False)"

section \<open>The dungeon as a sequence of single encounters, in the words of the specification\<close>





section \<open>The shape of an encounter record\<close>

text \<open>An enemy entry is a record whose \<open>count\<close> is an integer that is at least 1.\<close>

definition enemy_count_ok :: "json \<Rightarrow> bool" where
  "enemy_count_ok e =
     (case e of
        JObj d \<Rightarrow> (case map_of d ''count'' of Some (JInt c) \<Rightarrow> 1 \<le> c | _ \<Rightarrow> False)
      | _ \<Rightarrow> False)"

text \<open>
  Exactly the nine keys, \<open>meta\<close> with exactly its three keys, a list of enemies that is
  empty unless the type is "combat", every enemy with a count of at least 1.
\<close>

definition encounter_shape_ok :: "json \<Rightarrow> bool" where
  "encounter_shape_ok enc =
     (case enc of
        JObj d \<Rightarrow>
          map fst d = [''difficulty'', ''type'', ''slot'', ''biome'', ''enemies'',
                       ''environment'', ''tags'', ''loot'', ''meta''] \<and>
          (case map_of d ''meta'' of
             Some (JObj m) \<Rightarrow> map fst m = [''template_id'', ''noncombat_id'', ''notes'']
           | _ \<Rightarrow> False) \<and>
          (case map_of d ''enemies'' of
             Some (JArr es) \<Rightarrow>
               (map_of d ''type'' = Some (JStr ''combat'') \<or> es = []) \<and>
               list_all enemy_count_ok es
           | _ \<Rightarrow> False)
      | _ \<Rightarrow> False)"

section \<open>Loot entries with the defaults written in\<close>

text \<open>
  The entry that an entry without \<open>weight\<close>, \<open>rarity\<close>, \<open>min_level\<close> or \<open>max_level\<close>
  stands for: the same entry with the missing ones of these four fields added, at
  1.0, "common", 1 and 20.
\<close>

definition with_default :: "string \<Rightarrow> json \<Rightarrow> jobj \<Rightarrow> jobj" where
  "with_default k v it = (if map_of it k = None then it @ [(k, v)] else it)"

definition with_defaults :: "jobj \<Rightarrow> jobj" where
  "with_defaults it =
     with_default ''max_level'' (JInt 20)
       (with_default ''min_level'' (JInt 1)
         (with_default ''rarity'' (JStr ''common'')
           (with_default ''weight'' (JFloat 1) it)))"

definition loot_with_defaults :: "loot_data \<Rightarrow> loot_data" where
  "loot_with_defaults data =
     data \<lparr> magic_items := map with_defaults (magic_items data),
            mundane_goods := map with_defaults (mundane_goods data) \<rparr>"

section \<open>A concrete runtime, for evaluating the definitions\<close>

fun demo_digits :: "string \<Rightarrow> nat \<Rightarrow> nat option" where
  "demo_digits [] acc = Some acc"
| "demo_digits (c # cs) acc =
     (let d = (of_char c :: nat) in
      if 48 \<le> d \<and> d \<le> 57 then demo_digits cs (10 * acc + (d - 48)) else None)"

definition demo_int_of_str :: "string \<Rightarrow> int option" where
  "demo_int_of_str s =
     (case s of
        [] \<Rightarrow> None
      | c # cs \<Rightarrow>
          if c = CHR ''-'' \<and> cs \<noteq> [] then map_option (\<lambda>n. - int n) (demo_digits cs 0)
          else map_option int (demo_digits s 0))"

definition demo_next :: "nat \<Rightarrow> nat" where
  "demo_next s = (s * 7 + 3) mod 101"

definition demo_rt :: "nat pyrt" where
  "demo_rt =
     \<lparr> rng_seed = (\<lambda>seed. nat \<bar>seed\<bar> mod 101),
       rng_random = (\<lambda>s. (of_nat (s mod 10) / 10, demo_next s)),
       rng_randint = (\<lambda>a b s. (a + int (s mod nat (b - a + 1)), demo_next s)),
       rng_choice = (\<lambda>n s. (s mod n, demo_next s)),
       int_of_str = demo_int_of_str,
       float_of_str = (\<lambda>s. map_option of_int (demo_int_of_str s)),
       repr = (\<lambda>_. ''?''),
       set_order = remdups \<rparr>"

text \<open>A second runtime: the same, but a set iterates in the opposite order.\<close>

definition demo_rt2 :: "nat pyrt" where
  "demo_rt2 = demo_rt \<lparr> set_order := (\<lambda>xs. rev (remdups xs)) \<rparr>"

text \<open>Small tables: one type table, one combat template, one enemy group, no optional file.\<close>

definition demo_loot :: loot_data where
  "demo_loot =
     \<lparr> coin_values_gp = [(''sp'', 1 / 10), (''gp'', 1)],
       level_budgets_gp = [(''1'', JInt 100), (''2'', JInt 200), (''3'', JInt 300)],
       magic_items = [[(''id'', JStr ''wand''), (''name'', JStr ''Wand''), (''gp_value'', JInt 50),
                       (''min_level'', JInt 2)]],
       mundane_goods = [[(''id'', JStr ''rope''), (''name'', JStr ''Rope''), (''gp_value'', JInt 1)]] \<rparr>"

definition demo_tables :: tables where
  "demo_tables =
     \<lparr> encounter_types =
         [(''tables'', JArr [JObj
            [(''die'', JInt 4),
             (''rows'', JArr
                [JObj [(''min'', JInt 1), (''max'', JInt 2), (''type'', JStr ''combat'')],
                 JObj [(''min'', JInt 3), (''max'', JInt 3), (''type'', JStr ''puzzle'')],
                 JObj [(''min'', JInt 4), (''max'', JInt 4), (''type'', JStr ''rest'')]])]])],
       five_room_progression =
         [(''default_order'', JArr [JStr ''entrance'', JStr ''climax'']),
          (''slots'', JObj
             [(''entrance'', JObj [(''difficulty_delta'', JInt 0)]),
              (''climax'', JObj [(''difficulty_delta'', JInt 2)])])],
       combat_budgets = [(''budgets'', JObj [(''1'', JInt 100), (''3'', JInt 300)])],
       encounter_templates =
         [(''encounter_tables'', JArr [JObj
            [(''id'', JStr ''goblins''), (''min_level'', JInt 1), (''max_level'', JInt 4),
             (''enemy_group_id'', JStr ''g1''),
             (''tags'', JArr [JStr ''ambush'', JStr ''raiders''])]])],
       enemy_groups =
         [(''groups'', JArr [JObj
            [(''id'', JStr ''g1''),
             (''enemies'', JArr [JObj
                [(''monster_id'', JStr ''goblin''),
                 (''count'', JObj [(''min'', JInt 2), (''max'', JInt 4)])]])]])],
       monsters =
         [(''monsters'', JArr [JObj [(''id'', JStr ''goblin''), (''name'', JStr ''Goblin'')]])],
       factions = [],
       environment_presets = [],
       puzzle_tables = [],
       social_tables = [],
       exploration_tables = [] \<rparr>"

definition demo_gen :: encounter_generator where
  "demo_gen =
     \<lparr> tables = demo_tables, seed = 7, loot_tables = demo_loot,
       monster_index = [(''goblin'', [(''id'', JStr ''goblin''), (''name'', JStr ''Goblin'')])],
       enemy_group_index =
         [(''g1'', [(''id'', JStr ''g1''),
             (''enemies'', JArr [JObj
                [(''monster_id'', JStr ''goblin''),
                 (''count'', JObj [(''min'', JInt 2), (''max'', JInt 4)])]])])],
       faction_index = [],
       env_index = [] \<rparr>"

text \<open>What the demonstration tables generate from seed 7 (level 2, dungeon, entrance).\<close>

definition demo_loot_record :: json where
  "demo_loot_record =
     JObj
       [(''schema'', JStr ''loot.v1''), (''seed'', JInt 29),
        (''encounter_level'', JInt 2), (''rolls'', JInt 1),
        (''parcels'', JArr
           [JObj
              [(''coins'', JObj [(''gp'', JInt 29), (''sp'', JInt 4)]),
               (''magic_items'', JArr
                  [JObj [(''id'', JStr ''wand''), (''name'', JStr ''Wand''),
                         (''rarity'', JStr ''common''), (''gp_value'', JFloat 50)]]),
               (''mundane_items'', JArr []),
               (''total_value_gp'', JFloat (397 / 5))]])]"

definition demo_encounter :: "json list \<Rightarrow> json" where
  "demo_encounter tags =
     JObj
       [(''difficulty'', JInt 2), (''type'', JStr ''combat''),
        (''slot'', JStr ''entrance''), (''biome'', JStr ''dungeon''),
        (''enemies'', JArr
           [JObj [(''monster_id'', JStr ''goblin''), (''name'', JStr ''Goblin''),
                  (''count'', JInt 4), (''cr'', JNull), (''faction'', JNull),
                  (''tags'', JArr [])]]),
        (''environment'', JObj
           [(''preset_id'', JNull), (''description'', JStr []), (''tags'', JArr []),
            (''mechanical_effects'', JObj [])]),
        (''tags'', JArr tags),
        (''loot'', demo_loot_record),
        (''meta'', JObj
           [(''template_id'', JStr ''goblins''), (''noncombat_id'', JNull),
            (''notes'', JStr [])])]"

section \<open>The weighted selectors on a total weight that is not positive\<close>

text \<open>
  The selector of encountergen.py has the fallback: when the weights, each clamped at 0,
  sum to at most 0, it returns the first candidate and makes no draw.
\<close>

lemma encountergen_weighted_choice_first:
  assumes "items \<noteq> []" and "sum_list (map (\<lambda>(_, w). max 0 w) items) \<le> 0"
  shows "encountergen_weighted_choice P items s = (Inr (fst (hd items)), s)"
  using assms by (cases items) (auto simp: encountergen_weighted_choice_def greturn_def)

text \<open>
  C2. On two candidates of weight 0 the selector of encountergen.py returns the first
  one, as the claim says. The selector of lootgen.py does not: it has no such branch and
  hands the weights to \<open>random.choices\<close>, whose \<open>ValueError\<close> for a total that is not
  positive escapes (an interpreter before 3.9 returns the last candidate instead).
\<close>

theorem weighted_choice_zero_weights:
  "encountergen_weighted_choice demo_rt
     [([(''id'', JStr ''a''), (''weight'', JInt 0)], 0),
      ([(''id'', JStr ''b''), (''weight'', JInt 0)], 0)] (5::nat)
     = (Inr [(''id'', JStr ''a''), (''weight'', JInt 0)], 5) \<and>
   lootgen_weighted_choice demo_rt
     [[(''id'', JStr ''a''), (''weight'', JInt 0)], [(''id'', JStr ''b''), (''weight'', JInt 0)]] (5::nat)
     = (Inl ValueError_choices, 5)"
  using encountergen_weighted_choice_first
    [of "[([(''id'', JStr ''a''), (''weight'', JInt 0)], 0),
          ([(''id'', JStr ''b''), (''weight'', JInt 0)], 0)]" demo_rt 5]
  by (simp add: lootgen_weighted_choice_def gbind_def glift_def py_choices_def ebind_def
      dict_get_def double_overflows_def Let_def)

section \<open>Unknown levels in loot generation\<close>

subsection \<open>No part of loot generation other than the level check reports an unknown level\<close>

lemma eraises_only_ebind:
  assumes "eraises_only E m" "\<And>x. eraises_only E (f x)"
  shows "eraises_only E (ebind m f)"
proof (cases m)
  case (Inl e)
  with assms(1) show ?thesis by (simp add: eraises_only_def ebind_def)
next
  case (Inr x)
  with assms(2) [of x] show ?thesis by (simp add: ebind_def)
qed

lemma eraises_only_Inr [simp]: "eraises_only E (Inr x)"
  by (simp add: eraises_only_def)

lemma eraises_only_emap:
  "(\<And>x. eraises_only E (f x)) \<Longrightarrow> eraises_only E (emap f xs)"
  by (induction xs) (auto intro!: eraises_only_ebind)

lemma raises_only_gbind:
  assumes "raises_only E m" "\<And>x. raises_only E (f x)"
  shows "raises_only E (gbind m f)"
  unfolding raises_only_def
proof
  fix s
  obtain r s' where ms: "m s = (r, s')" by (cases "m s")
  show "eraises_only E (fst (gbind m f s))"
  proof (cases r)
    case (Inl e)
    from assms(1) have "eraises_only E (fst (m s))" by (simp add: raises_only_def)
    with ms Inl show ?thesis by (simp add: gbind_def eraises_only_def)
  next
    case (Inr x)
    from assms(2) [of x] have "eraises_only E (fst (f x s'))" by (simp add: raises_only_def)
    with ms Inr show ?thesis by (simp add: gbind_def)
  qed
qed

lemma raises_only_greturn [simp]: "raises_only E (greturn x)"
  by (simp add: raises_only_def greturn_def)

lemma raises_only_glift: "eraises_only E m \<Longrightarrow> raises_only E (glift m)"
  by (simp add: raises_only_def glift_def)

lemma raises_only_graise: "E e \<Longrightarrow> raises_only E (graise e)"
  by (simp add: raises_only_def graise_def eraises_only_def)

lemma py_float_not_lnf: "eraises_only (\<lambda>e. \<not> is_level_not_found e) (py_float P v)"
  by (cases v) (auto simp: eraises_only_def split: option.splits)

lemma py_int_not_lnf: "eraises_only (\<lambda>e. \<not> is_level_not_found e) (py_int P v)"
  by (cases v) (auto simp: eraises_only_def split: option.splits)

lemma dict_index_not_lnf: "eraises_only (\<lambda>e. \<not> is_level_not_found e) (dict_index d k)"
  by (auto simp: eraises_only_def dict_index_def split: option.splits)

lemma py_random_not_lnf: "raises_only E (py_random P)"
  by (auto simp: raises_only_def py_random_def split: prod.splits)

lemma py_randint_not_lnf: "raises_only (\<lambda>e. \<not> is_level_not_found e) (py_randint P a b)"
  by (auto simp: raises_only_def eraises_only_def py_randint_def split: prod.splits)

lemma py_choices_not_lnf: "raises_only (\<lambda>e. \<not> is_level_not_found e) (py_choices P xs ws)"
  by (auto simp: raises_only_def eraises_only_def py_choices_def Let_def split: prod.splits)

lemma lootgen_weighted_choice_not_lnf:
  "raises_only (\<lambda>e. \<not> is_level_not_found e) (lootgen_weighted_choice P xs)"
  unfolding lootgen_weighted_choice_def
  by (auto intro!: raises_only_gbind raises_only_glift eraises_only_emap py_float_not_lnf
      py_choices_not_lnf)

lemma filter_magic_not_lnf:
  "eraises_only (\<lambda>e. \<not> is_level_not_found e) (filter_magic_by_level P xs level)"
  by (induction xs) (auto intro!: eraises_only_ebind py_int_not_lnf)

lemma coins_loop_not_lnf:
  "raises_only (\<lambda>e. \<not> is_level_not_found e) (coins_loop P cs r out0)"
proof (induction cs arbitrary: r out0)
  case Nil
  then show ?case by simp
next
  case (Cons p cs)
  obtain c v where p: "p = (c, v)" by (cases p)
  show ?case unfolding p
    by (auto simp: Let_def intro!: raises_only_gbind raises_only_graise py_randint_not_lnf Cons.IH)
qed

lemma generate_coins_not_lnf:
  "raises_only (\<lambda>e. \<not> is_level_not_found e) (generate_coins P cv b)"
  unfolding generate_coins_def Let_def
  by (auto intro!: raises_only_gbind coins_loop_not_lnf)

lemma entries_not_lnf:
  "eraises_only (\<lambda>e. \<not> is_level_not_found e) (magic_entry P it)"
  "eraises_only (\<lambda>e. \<not> is_level_not_found e) (mundane_entry P it)"
  unfolding magic_entry_def mundane_entry_def
  by (auto intro!: eraises_only_ebind dict_index_not_lnf py_float_not_lnf)

lemma calculate_parcel_value_not_lnf:
  "eraises_only (\<lambda>e. \<not> is_level_not_found e) (calculate_parcel_value P c m n cv)"
  unfolding calculate_parcel_value_def
  by (auto intro!: eraises_only_ebind eraises_only_emap py_float_not_lnf)

lemma generate_parcel_not_lnf:
  "raises_only (\<lambda>e. \<not> is_level_not_found e) (generate_parcel P data level b pool)"
  unfolding generate_parcel_def Let_def
  by (auto intro!: raises_only_gbind raises_only_glift generate_coins_not_lnf py_random_not_lnf
      lootgen_weighted_choice_not_lnf entries_not_lnf calculate_parcel_value_not_lnf)

lemma parcels_loop_not_lnf:
  "raises_only (\<lambda>e. \<not> is_level_not_found e) (parcels_loop P data level b pool n)"
  by (induction n) (auto intro!: raises_only_gbind generate_parcel_not_lnf)


text \<open>
  C4. \<open>LootGenerator.generate\<close> raises its "level not found" error (a \<open>ValueError\<close> in the
  code, the configuration error of the specification) exactly when \<open>str(level)\<close> is not a
  key of the budget table; it then returns no record and leaves the generator state as it
  was, so no random draw has been made.
\<close>

theorem generate_level_not_found:
  "((\<exists>l. fst (generate P data sd level rolls s) = Inl (ValueError_level_not_found l)) \<longleftrightarrow>
      map_of (level_budgets_gp data) (str_int level) = None) \<and>
   (map_of (level_budgets_gp data) (str_int level) = None \<longrightarrow>
      generate P data sd level rolls s = (Inl (ValueError_level_not_found level), s))"
proof (cases "map_of (level_budgets_gp data) (str_int level) = None")
  case True
  then show ?thesis by (simp add: generate_def graise_def)
next
  case False
  let ?rest = "gbind (glift (ebind (dict_index (level_budgets_gp data) (str_int level)) (py_float P)))
          (\<lambda>base_budget.
        gbind (glift (filter_magic_by_level P (magic_items data) level)) (\<lambda>magic_pool.
        gbind (parcels_loop P data level base_budget magic_pool (nat (max 1 rolls))) (\<lambda>parcels.
          greturn (JObj
            [(''schema'', JStr ''loot.v1''),
             (''seed'', JInt sd),
             (''encounter_level'', JInt level),
             (''rolls'', JInt (max 1 rolls)),
             (''parcels'', JArr parcels)]))))"
  have "raises_only (\<lambda>e. \<not> is_level_not_found e) ?rest"
    by (auto intro!: raises_only_gbind raises_only_glift eraises_only_ebind dict_index_not_lnf
        py_float_not_lnf filter_magic_not_lnf parcels_loop_not_lnf)
  then have e: "eraises_only (\<lambda>e. \<not> is_level_not_found e) (fst (?rest s))"
    by (simp add: raises_only_def)
  have ne: "\<And>l. fst (?rest s) \<noteq> Inl (ValueError_level_not_found l)"
  proof
    fix l
    assume "fst (?rest s) = Inl (ValueError_level_not_found l)"
    with e show False by (simp add: eraises_only_def)
  qed
  from False obtain y where y: "map_of (level_budgets_gp data) (str_int level) = Some y"
    by auto
  then have "generate P data sd level rolls s = ?rest s"
    by (simp add: generate_def Let_def)
  with ne y show ?thesis by simp
qed

theorem generate_level_not_found_witness:
  "map_of (level_budgets_gp
      \<lparr>coin_values_gp = [(''gp'', 1)], level_budgets_gp = [(''1'', JInt 100)],
       magic_items = [], mundane_goods = []\<rparr>) (str_int 7) = None \<and>
   generate demo_rt
      \<lparr>coin_values_gp = [(''gp'', 1)], level_budgets_gp = [(''1'', JInt 100)],
       magic_items = [], mundane_goods = []\<rparr> 42 7 2 (5::nat)
     = (Inl (ValueError_level_not_found 7), 5)"
  using generate_level_not_found
    [of demo_rt "\<lparr>coin_values_gp = [(''gp'', 1)], level_budgets_gp = [(''1'', JInt 100)],
       magic_items = [], mundane_goods = []\<rparr>" 42 7 2 5]
  by (simp add: str_int_def)

section \<open>The demonstration tables\<close>

lemma demo_gen_init: "encounter_generator_init demo_tables 7 demo_loot = Inr demo_gen"
  by (simp add: encounter_generator_init_def demo_tables_def demo_gen_def index_by_id_def
      ebind_def dict_get_def)

section \<open>Combat generation without a candidate\<close>

text \<open>
  C5. When the filter over the combat templates (biome, slot, level range) yields no
  candidate, \<open>_generate_combat_encounter\<close> raises: the "no templates match" error when
  there are templates, the "no templates defined" error when the pool itself is empty
  (both are \<open>ValueError\<close> in the code, the specification's error for a combat encounter
  without candidates). No encounter is returned and no random draw is made.
\<close>

theorem combat_no_candidates:
  assumes "template_candidates P
             (py_or (dict_get (encounter_templates (tables G)) ''encounter_tables'' JNull) (JArr []))
             level biome slot = Inr []"
  shows "generate_combat_encounter P G level biome slot s =
           (Inl (if py_truthy (dict_get (encounter_templates (tables G)) ''encounter_tables'' JNull)
                 then ValueError_no_templates_match level biome slot
                 else ValueError_no_templates_defined), s)"
  using assms
  by (simp add: generate_combat_encounter_def Let_def gbind_def glift_def graise_def py_or_def)

theorem combat_no_candidates_witness:
  "generate_combat_encounter demo_rt demo_gen 7 ''dungeon'' ''entrance'' (5::nat)
   = (Inl (ValueError_no_templates_match 7 ''dungeon'' ''entrance''), 5)"
  using combat_no_candidates [of demo_rt demo_gen 7 "''dungeon''" "''entrance''" 5]
  by (simp add: demo_gen_def demo_tables_def template_candidates_def template_matches_def
      matches_any_def py_or_def dict_get_def ebind_def)

section \<open>Noncombat generation without a candidate\<close>

text \<open>
  C9. For a noncombat type (puzzle, social, exploration) whose table is absent (loaded as
  \<open>{}\<close>) or has no entries, or whose filter by biome, slot and level yields no candidate,
  \<open>_generate_noncombat_encounter\<close> returns, without raising and without a random draw,
  the fixed empty encounter: type "empty", no enemies, no tags, the neutral environment
  (null preset id, empty description, no tags, no mechanical effects) and null loot.
\<close>

theorem noncombat_degrades_to_empty:
  assumes "noncombat_table G enc_type = Some table"
    and "\<not> py_truthy (dict_get table ''entries'' JNull) \<or>
         template_candidates P (dict_get table ''entries'' JNull) level biome slot = Inr []"
  shows "generate_noncombat_encounter P G level biome slot enc_type s =
     (Inr (JObj
       [(''difficulty'', JInt level),
        (''type'', JStr ''empty''),
        (''slot'', JStr slot),
        (''biome'', JStr biome),
        (''enemies'', JArr []),
        (''environment'', JObj
           [(''preset_id'', JNull), (''description'', JStr []), (''tags'', JArr []),
            (''mechanical_effects'', JObj [])]),
        (''tags'', JArr []),
        (''loot'', JNull),
        (''meta'', JObj
           [(''template_id'', JNull), (''noncombat_id'', JNull), (''notes'', JStr [])])]), s)"
  using assms
  by (auto simp: generate_noncombat_encounter_def Let_def gbind_def glift_def greturn_def
      py_or_def generate_empty_encounter_def)

theorem noncombat_degrades_to_empty_witness:
  "generate_noncombat_encounter demo_rt demo_gen 2 ''dungeon'' ''entrance'' ''puzzle'' (5::nat) =
     (Inr (JObj
       [(''difficulty'', JInt 2),
        (''type'', JStr ''empty''),
        (''slot'', JStr ''entrance''),
        (''biome'', JStr ''dungeon''),
        (''enemies'', JArr []),
        (''environment'', JObj
           [(''preset_id'', JNull), (''description'', JStr []), (''tags'', JArr []),
            (''mechanical_effects'', JObj [])]),
        (''tags'', JArr []),
        (''loot'', JNull),
        (''meta'', JObj
           [(''template_id'', JNull), (''noncombat_id'', JNull), (''notes'', JStr [])])]), 5)"
  using noncombat_degrades_to_empty
    [where G = demo_gen and enc_type = "''puzzle''" and table = "[]" and P = demo_rt
       and level = 2 and biome = "''dungeon''" and slot = "''entrance''" and s = 5]
  by (simp add: generate_noncombat_encounter_def noncombat_table_def demo_gen_def
      demo_tables_def dict_get_def py_or_def greturn_def generate_empty_encounter_def Let_def)

section \<open>Level gating\<close>

lemma efilter_Inr: "efilter p xs = Inr out \<Longrightarrow> out = filter (\<lambda>x. p x = Inr True) xs"
  by (induction xs arbitrary: out) (auto simp: ebind_def split: sum.splits if_splits)

lemma within_level_gate_eq:
  "py_int P (dict_get it ''min_level'' (JInt 1)) = Inr lo \<Longrightarrow>
   py_int P (dict_get it ''max_level'' (JInt d)) = Inr hi \<Longrightarrow>
   within_level_gate P it d level = (lo \<le> level \<and> level \<le> hi)"
  by (simp add: within_level_gate_def)

lemma filter_magic_by_level_Inr:
  "filter_magic_by_level P items level = Inr out \<Longrightarrow>
   out = filter (\<lambda>it. within_level_gate P it 20 level) items"
proof (induction items arbitrary: out)
  case Nil
  then show ?case by simp
next
  case (Cons it items)
  from Cons.prems obtain lo hi rest where
    lo: "py_int P (dict_get it ''min_level'' (JInt 1)) = Inr lo" and
    hi: "py_int P (dict_get it ''max_level'' (JInt 20)) = Inr hi" and
    rest: "filter_magic_by_level P items level = Inr rest" and
    out: "out = (if lo \<le> level \<and> level \<le> hi then it # rest else rest)"
    by (auto simp: ebind_def split: sum.splits)
  from Cons.IH [OF rest] out within_level_gate_eq [OF lo hi, of level]
  show ?case by simp
qed

lemma template_matches_Inr:
  assumes "template_matches P (JObj tpl) level biome slot = Inr keep"
  shows "keep \<longleftrightarrow>
     matches_any (py_or (dict_get tpl ''biomes'' JNull) (JArr [JStr ''any''])) biome = Inr True \<and>
     matches_any (py_or (dict_get tpl ''slots'' JNull) (JArr [JStr ''any''])) slot = Inr True \<and>
     within_level_gate P tpl 99 level"
proof -
  from assms obtain lo hi where
    lo: "py_int P (dict_get tpl ''min_level'' (JInt 1)) = Inr lo" and
    hi: "py_int P (dict_get tpl ''max_level'' (JInt 99)) = Inr hi"
    by (auto simp: template_matches_def ebind_def split: sum.splits)
  from assms lo hi within_level_gate_eq [OF lo hi, of level] show ?thesis
    by (auto simp: template_matches_def ebind_def split: sum.splits if_splits)
qed

text \<open>
  C6 (amended). The filters keep an entry exactly when \<open>min_level \<le> level \<le> max_level\<close>,
  with \<open>min_level\<close> 1 when absent and \<open>max_level\<close>, when absent, 20 for magic items and 99
  for combat and noncombat templates (which must pass the biome and the slot test as
  well). An entry with \<open>min_level = 5\<close> and \<open>max_level = 10\<close> is dropped at levels 4 and
  11 and kept at 5, 7 and 10.
\<close>

theorem level_gate:
  "(filter_magic_by_level P items level = Inr out \<longrightarrow>
      out = filter (\<lambda>it. within_level_gate P it 20 level) items) \<and>
   (template_matches P (JObj tpl) level biome slot = Inr keep \<longrightarrow>
      (keep \<longleftrightarrow>
        matches_any (py_or (dict_get tpl ''biomes'' JNull) (JArr [JStr ''any''])) biome = Inr True \<and>
        matches_any (py_or (dict_get tpl ''slots'' JNull) (JArr [JStr ''any''])) slot = Inr True \<and>
        within_level_gate P tpl 99 level)) \<and>
   (template_candidates P (JArr ts) level biome slot = Inr cands \<longrightarrow>
      cands = filter (\<lambda>t. template_matches P t level biome slot = Inr True) ts)"
  using filter_magic_by_level_Inr [of P items level out]
    template_matches_Inr [of P tpl level biome slot keep]
    efilter_Inr [of "\<lambda>t. template_matches P t level biome slot" ts cands]
  by (simp add: template_candidates_def ebind_def)

theorem level_gate_witness:
  "filter_magic_by_level demo_rt [[(''min_level'', JInt 5), (''max_level'', JInt 10)]] 4 = Inr [] \<and>
   filter_magic_by_level demo_rt [[(''min_level'', JInt 5), (''max_level'', JInt 10)]] 11 = Inr [] \<and>
   filter_magic_by_level demo_rt [[(''min_level'', JInt 5), (''max_level'', JInt 10)]] 7
     = Inr [[(''min_level'', JInt 5), (''max_level'', JInt 10)]] \<and>
   within_level_gate demo_rt [(''min_level'', JInt 5), (''max_level'', JInt 10)] 20 7 \<and>
   template_matches demo_rt (JObj [(''min_level'', JInt 5)]) 99 ''forest'' ''climax'' = Inr True \<and>
   within_level_gate demo_rt [(''min_level'', JInt 5)] 99 99 \<and>
   template_candidates demo_rt
     (JArr [JObj [(''min_level'', JInt 5), (''max_level'', JInt 10)], JObj [(''min_level'', JInt 5)]])
     11 ''forest'' ''climax'' = Inr [JObj [(''min_level'', JInt 5)]]"
  using level_gate [where P = demo_rt and level = 11 and biome = "''forest''" and slot = "''climax''"
      and items = "[[(''min_level'', JInt 5), (''max_level'', JInt 10)]]" and out = "[]"
      and tpl = "[(''min_level'', JInt 5)]" and keep = True
      and ts = "[JObj [(''min_level'', JInt 5), (''max_level'', JInt 10)], JObj [(''min_level'', JInt 5)]]"
      and cands = "[JObj [(''min_level'', JInt 5)]]"]
  by (simp add: ebind_def dict_get_def within_level_gate_def template_matches_def
      template_candidates_def matches_any_def py_or_def)

theorem magic_default_max_level_counterexample:
  "filter_magic_by_level demo_rt [[(''id'', JStr ''wand''), (''min_level'', JInt 5)]] 21 = Inr []"
  by (simp add: ebind_def dict_get_def)

section \<open>A dungeon is a sequence of single encounters on one random stream\<close>



lemma gbind_glift_Inr: "gbind (glift (Inr x)) f = f x"
  by (rule ext) (simp add: gbind_def glift_def)













section \<open>The shape of every encounter\<close>

lemma gbind_InrE:
  assumes "gbind m f s = (Inr y, s')"
  obtains x s1 where "m s = (Inr x, s1)" and "f x s1 = (Inr y, s')"
  using assms by (auto simp: gbind_def split: prod.splits sum.splits)

lemma glift_InrD: "glift m s = (Inr x, s') \<Longrightarrow> m = Inr x \<and> s' = s"
  by (simp add: glift_def)

lemma greturn_InrD: "greturn x s = (Inr y, s') \<Longrightarrow> y = x \<and> s' = s"
  by (simp add: greturn_def)

lemma graise_Inr: "graise e s = (Inr y, s') \<longleftrightarrow> False"
  by (simp add: graise_def)

lemma enemy_count_ok_entry:
  "enemy_count_ok (JObj [(''monster_id'', a), (''name'', b), (''count'', JInt c), (''cr'', d),
     (''faction'', e), (''tags'', f)]) \<longleftrightarrow> 1 \<le> c"
  by (simp add: enemy_count_ok_def)

lemma enemies_loop_step:
  assumes "enemies_loop P G grp (entry # entries) s = (Inr es, s')"
  shows "\<exists>s1 rest. enemies_loop P G grp entries s1 = (Inr rest, s') \<and>
           (es = rest \<or> (\<exists>e. es = e # rest \<and> enemy_count_ok e))"
  using assms
  by (auto simp: enemy_count_ok_entry graise_Inr Let_def
      elim!: gbind_InrE dest!: glift_InrD greturn_InrD split: if_splits; blast)

lemma enemies_loop_counts:
  "enemies_loop P G grp entries s = (Inr es, s') \<Longrightarrow> list_all enemy_count_ok es"
proof (induction entries arbitrary: s es)
  case Nil
  then show ?case by (simp add: greturn_def)
next
  case (Cons entry entries)
  from enemies_loop_step [OF Cons.prems] obtain s1 rest where
    r: "enemies_loop P G grp entries s1 = (Inr rest, s')" and
    e: "es = rest \<or> (\<exists>e. es = e # rest \<and> enemy_count_ok e)"
    by blast
  from Cons.IH [OF r] e show ?case by auto
qed

lemma instantiate_enemy_group_counts:
  "instantiate_enemy_group P G group_id lvl s = (Inr es, s') \<Longrightarrow> list_all enemy_count_ok es"
  by (auto simp: instantiate_enemy_group_def graise_Inr
      elim!: gbind_InrE dest!: glift_InrD dest: enemies_loop_counts
      split: if_splits option.splits list.splits)

lemma empty_shape: "encounter_shape_ok (generate_empty_encounter level biome slot)"
  by (simp add: encounter_shape_ok_def generate_empty_encounter_def)

lemma combat_shape:
  "generate_combat_encounter P G level biome slot s = (Inr enc, s') \<Longrightarrow> encounter_shape_ok enc"
  by (auto simp: generate_combat_encounter_def graise_Inr Let_def encounter_shape_ok_def
      elim!: gbind_InrE dest!: glift_InrD greturn_InrD split: if_splits;
      (rule instantiate_enemy_group_counts, assumption))

lemma noncombat_shape:
  "generate_noncombat_encounter P G level biome slot enc_type s = (Inr enc, s') \<Longrightarrow>
   encounter_shape_ok enc"
  by (auto simp: generate_noncombat_encounter_def graise_Inr Let_def encounter_shape_ok_def
      generate_empty_encounter_def
      elim!: gbind_InrE dest!: glift_InrD greturn_InrD
      split: if_splits option.splits)

lemma internal_shape:
  assumes "generate_encounter_internal P G level biome slot s = (Inr enc, s')"
  shows "encounter_shape_ok enc"
proof -
  from assms obtain enc_type s1 where
    r: "(if enc_type = ''combat'' then generate_combat_encounter P G level biome slot
         else if enc_type \<in> {''puzzle'', ''social'', ''exploration''}
         then generate_noncombat_encounter P G level biome slot enc_type
         else greturn (generate_empty_encounter level biome slot)) s1 = (Inr enc, s')"
    unfolding generate_encounter_internal_def by (elim gbind_InrE)
  show ?thesis
  proof (cases "enc_type = ''combat''")
    case True
    with r show ?thesis by (simp add: combat_shape)
  next
    case False
    show ?thesis
    proof (cases "enc_type \<in> {''puzzle'', ''social'', ''exploration''}")
      case True
      with r False have "generate_noncombat_encounter P G level biome slot enc_type s1 = (Inr enc, s')"
        by (simp split: if_splits)
      then show ?thesis by (rule noncombat_shape)
    next
      case nc: False
      with r False have "enc = generate_empty_encounter level biome slot"
        by (simp add: greturn_def split: if_splits)
      then show ?thesis by (simp add: empty_shape)
    qed
  qed
qed

text \<open>
  C10. Every encounter that a generation path returns (the dispatcher, the combat path,
  the noncombat path, the empty encounter) is a record with exactly the nine keys
  difficulty, type, slot, biome, enemies, environment, tags, loot and meta; its meta has
  exactly template_id, noncombat_id and notes; its list of enemies is empty unless its
  type is "combat"; and every enemy in the list has a count of at least 1.
\<close>

theorem encounter_shape:
  "(generate_encounter_internal P G level biome slot s = (Inr enc, s') \<longrightarrow>
      encounter_shape_ok enc) \<and>
   (generate_combat_encounter P G level biome slot s = (Inr enc, s') \<longrightarrow>
      encounter_shape_ok enc) \<and>
   (generate_noncombat_encounter P G level biome slot enc_type s = (Inr enc, s') \<longrightarrow>
      encounter_shape_ok enc) \<and>
   encounter_shape_ok (generate_empty_encounter level biome slot)"
  using internal_shape [of P G level biome slot s enc s']
    combat_shape [of P G level biome slot s enc s']
    noncombat_shape [of P G level biome slot enc_type s enc s']
    empty_shape [of level biome slot]
  by blast

section \<open>Evaluating the demonstration tables\<close>

lemma demo_rt_sel:
  "rng_seed demo_rt sd = nat \<bar>sd\<bar> mod 101"
  "rng_random demo_rt s = (of_nat (s mod 10) / 10, demo_next s)"
  "rng_randint demo_rt a b s = (a + int (s mod nat (b - a + 1)), demo_next s)"
  "rng_choice demo_rt n s = (s mod n, demo_next s)"
  "int_of_str demo_rt = demo_int_of_str"
  "set_order demo_rt xs = remdups xs"
  by (simp_all add: demo_rt_def)

lemma demo_rt2_sel:
  "rng_seed demo_rt2 sd = nat \<bar>sd\<bar> mod 101"
  "rng_random demo_rt2 s = (of_nat (s mod 10) / 10, demo_next s)"
  "rng_randint demo_rt2 a b s = (a + int (s mod nat (b - a + 1)), demo_next s)"
  "rng_choice demo_rt2 n s = (s mod n, demo_next s)"
  "int_of_str demo_rt2 = demo_int_of_str"
  "set_order demo_rt2 xs = rev (remdups xs)"
  by (simp_all add: demo_rt2_def demo_rt_def)

lemma demo_generate_loot:
  "generate_loot demo_rt demo_loot 2 1 29 = Inr demo_loot_record"
  "generate_loot demo_rt2 demo_loot 2 1 29 = Inr demo_loot_record"
  by (simp_all add: generate_loot_def generate_def demo_loot_def demo_rt_def demo_rt2_def
      demo_next_def str_int_def demo_loot_record_def
      gbind_def glift_def greturn_def graise_def ebind_def dict_index_def dict_get_def
      generate_parcel_def generate_coins_def py_randint_def py_random_def py_trunc_def
      double_overflows_def lootgen_weighted_choice_def py_choices_def magic_entry_def mundane_entry_def
      calculate_parcel_value_def coins_value_def py_round2_def round_half_even_def
      Let_def numeral_2_eq_2)

lemma demo_choose_7:
  "choose_encounter_type demo_rt demo_gen ''entrance'' ''dungeon'' (7::nat) = (Inr ''combat'', 64)"
  "choose_encounter_type demo_rt2 demo_gen ''entrance'' ''dungeon'' (7::nat) = (Inr ''combat'', 64)"
  by (simp_all add: choose_encounter_type_def demo_gen_def demo_tables_def demo_rt_def demo_rt2_def
      demo_next_def
      py_choice_def py_randint_def gbind_def glift_def greturn_def ebind_def dict_get_def py_or_def
      type_table_matches_def matches_any_def py_str_def Let_def)

lemma demo_combat_64:
  "generate_combat_encounter demo_rt demo_gen 2 ''dungeon'' ''entrance'' (64::nat) =
     (Inr (demo_encounter [JStr ''ambush'', JStr ''raiders'']), 4)"
  by (simp add: generate_combat_encounter_def demo_gen_def demo_tables_def
      template_candidates_def template_matches_def matches_any_def combat_weights_def
      compute_faction_weight_def encountergen_weighted_choice_def py_random_def
      instantiate_enemy_group_def index_get_def py_randint_def select_environment_def
      neutral_environment_def encounter_tags_def merge_tags_def encounter_loot_def
      demo_generate_loot demo_encounter_def
      demo_rt_sel demo_next_def
      gbind_def glift_def greturn_def graise_def ebind_def dict_get_def py_or_def Let_def)

lemma demo_combat2_64:
  "generate_combat_encounter demo_rt2 demo_gen 2 ''dungeon'' ''entrance'' (64::nat) =
     (Inr (demo_encounter [JStr ''raiders'', JStr ''ambush'']), 4)"
  by (simp add: generate_combat_encounter_def demo_gen_def demo_tables_def
      template_candidates_def template_matches_def matches_any_def combat_weights_def
      compute_faction_weight_def encountergen_weighted_choice_def py_random_def
      instantiate_enemy_group_def index_get_def py_randint_def select_environment_def
      neutral_environment_def encounter_tags_def merge_tags_def encounter_loot_def
      demo_generate_loot demo_encounter_def
      demo_rt2_sel demo_next_def
      gbind_def glift_def greturn_def graise_def ebind_def dict_get_def py_or_def Let_def)

lemma demo_single_encounter:
  "api_generate_single_encounter demo_rt demo_tables demo_loot 2 ''dungeon'' ''entrance'' 7 =
     Inr (JObj [(''schema'', JStr ''encounter.v1''), (''seed'', JInt 7),
                (''encounter'', demo_encounter [JStr ''ambush'', JStr ''raiders''])])"
  "api_generate_single_encounter demo_rt2 demo_tables demo_loot 2 ''dungeon'' ''entrance'' 7 =
     Inr (JObj [(''schema'', JStr ''encounter.v1''), (''seed'', JInt 7),
                (''encounter'', demo_encounter [JStr ''raiders'', JStr ''ambush''])])"
  by (simp_all add: api_generate_single_encounter_def demo_gen_init ebind_def
      generate_single_encounter_def generate_encounter_internal_def gbind_def greturn_def
      demo_rt_sel demo_rt2_sel demo_choose_7 demo_combat_64 demo_combat2_64)
    (simp_all add: demo_gen_def)

theorem encounter_shape_witness:
  "generate_combat_encounter demo_rt demo_gen 2 ''dungeon'' ''entrance'' (64::nat) =
     (Inr (demo_encounter [JStr ''ambush'', JStr ''raiders'']), 4) \<and>
   encounter_shape_ok (demo_encounter [JStr ''ambush'', JStr ''raiders''])"
  using encounter_shape
    [where P = demo_rt and G = demo_gen and level = 2 and biome = "''dungeon''"
       and slot = "''entrance''" and s = 64 and s' = 4
       and enc = "demo_encounter [JStr ''ambush'', JStr ''raiders'']"]
    demo_combat_64
  by simp

section \<open>The order of the tags depends on the interpreter\<close>

text \<open>
  C1. Loot generation depends on nothing but the tables, the seed and the input. An
  encounter does: its \<open>tags\<close> are \<open>list(set(...))\<close>, and the order in which a set of
  strings iterates is the interpreter's, not the generator's (string hashing is seeded
  anew for every process). Two runtimes that differ in nothing but that order produce,
  from the same tables, seed and input, records that differ in their \<open>tags\<close>.
\<close>

theorem single_encounter_depends_on_set_order:
  "api_generate_single_encounter demo_rt demo_tables demo_loot 2 ''dungeon'' ''entrance'' 7 =
     Inr (JObj [(''schema'', JStr ''encounter.v1''), (''seed'', JInt 7),
                (''encounter'', demo_encounter [JStr ''ambush'', JStr ''raiders''])]) \<and>
   api_generate_single_encounter demo_rt2 demo_tables demo_loot 2 ''dungeon'' ''entrance'' 7 =
     Inr (JObj [(''schema'', JStr ''encounter.v1''), (''seed'', JInt 7),
                (''encounter'', demo_encounter [JStr ''raiders'', JStr ''ambush''])]) \<and>
   api_generate_single_encounter demo_rt demo_tables demo_loot 2 ''dungeon'' ''entrance'' 7 \<noteq>
   api_generate_single_encounter demo_rt2 demo_tables demo_loot 2 ''dungeon'' ''entrance'' 7"
  by (simp add: demo_single_encounter demo_encounter_def)

section \<open>Loot entries without the optional fields, and without the required ones\<close>

text \<open>Reading an entry with the defaults written in gives what reading the entry gives.\<close>

lemma map_of_with_default:
  "map_of (with_default k v it) k' =
     (case map_of it k' of Some y \<Rightarrow> Some y | None \<Rightarrow> if k' = k then Some v else None)"
  by (auto simp: with_default_def map_add_def split: option.splits)

lemma dict_get_with_default_same:
  "dict_get (with_default k v it) k v = dict_get it k v"
  by (simp add: dict_get_def map_of_with_default split: option.splits)

lemma dict_get_with_default_other:
  "k' \<noteq> k \<Longrightarrow> dict_get (with_default k v it) k' d = dict_get it k' d"
  by (simp add: dict_get_def map_of_with_default split: option.splits)

lemma dict_index_with_default_other:
  "k' \<noteq> k \<Longrightarrow> dict_index (with_default k v it) k' = dict_index it k'"
  by (simp add: dict_index_def map_of_with_default split: option.splits)

lemma with_defaults_get:
  "dict_get (with_defaults it) ''weight'' (JFloat 1) = dict_get it ''weight'' (JFloat 1)"
  "dict_get (with_defaults it) ''rarity'' (JStr ''common'') = dict_get it ''rarity'' (JStr ''common'')"
  "dict_get (with_defaults it) ''min_level'' (JInt 1) = dict_get it ''min_level'' (JInt 1)"
  "dict_get (with_defaults it) ''max_level'' (JInt 20) = dict_get it ''max_level'' (JInt 20)"
  by (simp_all add: with_defaults_def dict_get_with_default_same dict_get_with_default_other)

lemma with_defaults_index:
  "dict_index (with_defaults it) ''id'' = dict_index it ''id''"
  "dict_index (with_defaults it) ''name'' = dict_index it ''name''"
  "dict_index (with_defaults it) ''gp_value'' = dict_index it ''gp_value''"
  by (simp_all add: with_defaults_def dict_index_with_default_other)

lemma magic_entry_with_defaults: "magic_entry P (with_defaults it) = magic_entry P it"
  by (simp add: magic_entry_def with_defaults_index with_defaults_get)

lemma mundane_entry_with_defaults: "mundane_entry P (with_defaults it) = mundane_entry P it"
  by (simp add: mundane_entry_def with_defaults_index)

lemma emap_map: "emap f (map g xs) = emap (\<lambda>x. f (g x)) xs"
  by (induction xs) simp_all

lemma filter_magic_with_defaults:
  "filter_magic_by_level P (map with_defaults items) level =
     (case filter_magic_by_level P items level of
        Inl e \<Rightarrow> Inl e | Inr out \<Rightarrow> Inr (map with_defaults out))"
proof (induction items)
  case Nil
  show ?case by simp
next
  case (Cons it items)
  show ?case
    by (cases "py_int P (dict_get it ''min_level'' (JInt 1))";
        cases "py_int P (dict_get it ''max_level'' (JInt 20))";
        cases "filter_magic_by_level P items level")
       (simp_all add: Cons.IH with_defaults_get ebind_def)
qed

text \<open>The search of \<open>random.choices\<close> returns an index within the population.\<close>

lemma bisect_right_le: "lo \<le> hi \<Longrightarrow> bisect_right a x lo hi \<le> hi"
proof (induction a x lo hi rule: bisect_right.induct)
  case (1 a x lo hi)
  show ?case
  proof (cases "lo < hi")
    case True
    let ?mid = "(lo + hi) div 2"
    have m: "lo \<le> ?mid" "?mid < hi" "?mid + 1 \<le> hi" using True by auto
    show ?thesis
    proof (cases "x < a ! ?mid")
      case lt: True
      from "1.IH"(1) [OF True refl lt m(1)] have "bisect_right a x lo ?mid \<le> ?mid" .
      with m(2) True lt show ?thesis
        by (subst bisect_right.simps) (simp add: Let_def)
    next
      case ge: False
      from "1.IH"(2) [OF True refl ge m(3)] have "bisect_right a x (?mid + 1) hi \<le> hi" .
      with True ge show ?thesis
        by (subst bisect_right.simps) (simp add: Let_def)
    qed
  next
    case False
    with "1.prems" show ?thesis by (subst bisect_right.simps) simp
  qed
qed

lemma py_choices_map:
  "py_choices P (map f xs) ws s =
     (case py_choices P xs ws s of (Inl e, s') \<Rightarrow> (Inl e, s') | (Inr x, s') \<Rightarrow> (Inr (f x), s'))"
proof -
  obtain u s' where u: "rng_random P s = (u, s')" by (cases "rng_random P s")
  let ?c = "accumulate 0 ws"
  let ?i = "bisect_right ?c (u * last ?c) 0 (length xs - 1)"
  consider (bad) "length ?c \<noteq> length xs" | (empty) "length ?c = length xs" "xs = []"
    | (low) "length ?c = length xs" "xs \<noteq> []" "last ?c \<le> 0"
    | (ok) "length ?c = length xs" "xs \<noteq> []" "\<not> last ?c \<le> 0"
    by blast
  then show ?thesis
  proof cases
    case bad
    then show ?thesis unfolding py_choices_def Let_def by simp
  next
    case empty
    then show ?thesis unfolding py_choices_def Let_def by simp
  next
    case low
    then show ?thesis unfolding py_choices_def Let_def by simp
  next
    case ok
    have "?i \<le> length xs - 1" by (rule bisect_right_le) simp
    with ok(2) have i: "?i < length xs" by (cases xs) simp_all
    have l: "py_choices P (map f xs) ws s = (Inr (map f xs ! ?i), s')"
      unfolding py_choices_def Let_def using ok u by simp
    have r: "py_choices P xs ws s = (Inr (xs ! ?i), s')"
      unfolding py_choices_def Let_def using ok u by simp
    from i show ?thesis unfolding l r by simp
  qed
qed

text \<open>
  Selection from a list with the defaults written in makes the same draw and returns the
  entry at the same position.
\<close>

lemma lootgen_weighted_choice_with_defaults:
  "lootgen_weighted_choice P (map with_defaults items) s =
     (case lootgen_weighted_choice P items s of
        (Inl e, s') \<Rightarrow> (Inl e, s')
      | (Inr it, s') \<Rightarrow> (Inr (if items = [] then it else with_defaults it), s'))"
proof (cases "items = []")
  case True
  then show ?thesis by (simp add: lootgen_weighted_choice_def greturn_def)
next
  case False
  show ?thesis
  proof (cases "emap (\<lambda>it. py_float P (dict_get it ''weight'' (JFloat 1))) items")
    case (Inl e)
    with False show ?thesis
      by (simp add: lootgen_weighted_choice_def emap_map with_defaults_get gbind_def glift_def)
  next
    case (Inr ws)
    with False show ?thesis
      by (simp add: lootgen_weighted_choice_def emap_map with_defaults_get gbind_def glift_def
          py_choices_map split: prod.splits sum.splits)
  qed
qed

lemma choose_magic_with_defaults:
  "gbind (lootgen_weighted_choice P (map with_defaults items))
     (\<lambda>item. gbind (glift (magic_entry P item)) k) =
   gbind (lootgen_weighted_choice P items) (\<lambda>item. gbind (glift (magic_entry P item)) k)"
proof (rule ext)
  fix s
  obtain r s' where c: "lootgen_weighted_choice P items s = (r, s')"
    by (cases "lootgen_weighted_choice P items s")
  show "gbind (lootgen_weighted_choice P (map with_defaults items))
          (\<lambda>item. gbind (glift (magic_entry P item)) k) s =
        gbind (lootgen_weighted_choice P items) (\<lambda>item. gbind (glift (magic_entry P item)) k) s"
  proof (cases "items = []")
    case True
    then show ?thesis by simp
  next
    case False
    with c show ?thesis
      by (cases r)
        (simp_all add: gbind_def [of "lootgen_weighted_choice P (map with_defaults items)"]
          gbind_def [of "lootgen_weighted_choice P items"]
          lootgen_weighted_choice_with_defaults magic_entry_with_defaults)
  qed
qed

lemma choose_mundane_with_defaults:
  "gbind (lootgen_weighted_choice P (map with_defaults items))
     (\<lambda>item. gbind (glift (mundane_entry P item)) k) =
   gbind (lootgen_weighted_choice P items) (\<lambda>item. gbind (glift (mundane_entry P item)) k)"
proof (rule ext)
  fix s
  obtain r s' where c: "lootgen_weighted_choice P items s = (r, s')"
    by (cases "lootgen_weighted_choice P items s")
  show "gbind (lootgen_weighted_choice P (map with_defaults items))
          (\<lambda>item. gbind (glift (mundane_entry P item)) k) s =
        gbind (lootgen_weighted_choice P items) (\<lambda>item. gbind (glift (mundane_entry P item)) k) s"
  proof (cases "items = []")
    case True
    then show ?thesis by simp
  next
    case False
    with c show ?thesis
      by (cases r)
        (simp_all add: gbind_def [of "lootgen_weighted_choice P (map with_defaults items)"]
          gbind_def [of "lootgen_weighted_choice P items"]
          lootgen_weighted_choice_with_defaults mundane_entry_with_defaults)
  qed
qed

lemma loot_with_defaults_sel:
  "coin_values_gp (loot_with_defaults data) = coin_values_gp data"
  "level_budgets_gp (loot_with_defaults data) = level_budgets_gp data"
  "magic_items (loot_with_defaults data) = map with_defaults (magic_items data)"
  "mundane_goods (loot_with_defaults data) = map with_defaults (mundane_goods data)"
  by (simp_all add: loot_with_defaults_def)

lemma generate_parcel_with_defaults:
  "generate_parcel P (loot_with_defaults data) level base (map with_defaults pool) =
   generate_parcel P data level base pool"
  unfolding generate_parcel_def loot_with_defaults_sel choose_magic_with_defaults
    choose_mundane_with_defaults
  by simp

lemma parcels_loop_with_defaults:
  "parcels_loop P (loot_with_defaults data) level base (map with_defaults pool) n =
   parcels_loop P data level base pool n"
  by (induction n) (simp_all add: generate_parcel_with_defaults)

lemma gbind_glift_Inl: "gbind (glift (Inl e)) f = graise e"
  by (rule ext) (simp add: gbind_def glift_def graise_def)

lemma generate_with_defaults:
  "generate P (loot_with_defaults data) sd level rolls = generate P data sd level rolls"
proof (cases "filter_magic_by_level P (magic_items data) level")
  case (Inl e)
  then show ?thesis
    by (simp add: generate_def loot_with_defaults_sel filter_magic_with_defaults
        gbind_glift_Inl Let_def cong: if_cong)
next
  case (Inr pool)
  then show ?thesis
    by (simp add: generate_def loot_with_defaults_sel filter_magic_with_defaults
        gbind_glift_Inr parcels_loop_with_defaults Let_def cong: if_cong)
qed

text \<open>The three fields that \<open>_generate_parcel\<close> reads by indexing.\<close>

lemma entry_missing:
  assumes "map_of it ''id'' = None \<or> map_of it ''name'' = None \<or> map_of it ''gp_value'' = None"
  shows "magic_entry P it =
           Inl (KeyError (if map_of it ''id'' = None then ''id''
                          else if map_of it ''name'' = None then ''name'' else ''gp_value''))"
    and "mundane_entry P it =
           Inl (KeyError (if map_of it ''id'' = None then ''id''
                          else if map_of it ''name'' = None then ''name'' else ''gp_value''))"
  using assms
  by (auto simp: magic_entry_def mundane_entry_def ebind_def dict_index_def split: option.splits)

lemma generate_parcel_missing:
  assumes c: "generate_coins P (coin_values_gp data) (base * (1 / 5)) s = (Inr coins, s1)"
    and r: "py_random P s1 = (Inr u, s2)"
    and w: "lootgen_weighted_choice P (if u < 2 / 5 \<and> pool \<noteq> [] then pool else mundane_goods data) s2
           = (Inr it, s3)"
    and m: "map_of it ''id'' = None \<or> map_of it ''name'' = None \<or> map_of it ''gp_value'' = None"
  shows "generate_parcel P data level base pool s =
     (Inl (KeyError (if map_of it ''id'' = None then ''id''
                     else if map_of it ''name'' = None then ''name'' else ''gp_value'')), s3)"
proof (cases "u < 2 / 5 \<and> pool \<noteq> []")
  case True
  with w have w': "lootgen_weighted_choice P pool s2 = (Inr it, s3)" by (auto split: if_splits)
  from True c r w' show ?thesis
    unfolding generate_parcel_def Let_def
    by (simp add: gbind_def glift_def entry_missing(1) [OF m])
next
  case False
  with w have w': "lootgen_weighted_choice P (mundane_goods data) s2 = (Inr it, s3)"
    by (auto split: if_splits)
  from False c r w' show ?thesis
    unfolding generate_parcel_def Let_def
    by (auto simp: gbind_def glift_def entry_missing(2) [OF m])
qed

text \<open>
  C8, amended. The fields \<open>weight\<close>, \<open>rarity\<close>, \<open>min_level\<close> and \<open>max_level\<close> of a loot
  entry are optional: on every random stream, at every level and for every number of
  rolls, generation on the tables does exactly what it does on the tables with the
  missing ones of these fields written in at 1.0, "common", 1 and 20: the same record or
  the same error, and the same state of the random stream afterwards. The fields \<open>id\<close>,
  \<open>name\<close> and \<open>gp_value\<close> are not optional: when the coins of a parcel have been
  generated and the selected magic or mundane entry lacks one of them, generating the
  parcel raises \<open>KeyError\<close> for the first of them that is missing.
\<close>

theorem loot_defaults_and_required_fields:
  "generate P (loot_with_defaults data) sd level rolls s = generate P data sd level rolls s \<and>
   generate_loot P (loot_with_defaults data) level rolls sd = generate_loot P data level rolls sd \<and>
   (generate_coins P (coin_values_gp data) (base * (1 / 5)) s = (Inr coins, s1) \<and>
    py_random P s1 = (Inr u, s2) \<and>
    lootgen_weighted_choice P (if u < 2 / 5 \<and> pool \<noteq> [] then pool else mundane_goods data) s2
      = (Inr it, s3) \<and>
    (map_of it ''id'' = None \<or> map_of it ''name'' = None \<or> map_of it ''gp_value'' = None)
    \<longrightarrow> generate_parcel P data level base pool s =
          (Inl (KeyError (if map_of it ''id'' = None then ''id''
                          else if map_of it ''name'' = None then ''name'' else ''gp_value'')), s3))"
proof (intro conjI impI)
  show "generate P (loot_with_defaults data) sd level rolls s = generate P data sd level rolls s"
    by (simp only: generate_with_defaults)
  show "generate_loot P (loot_with_defaults data) level rolls sd = generate_loot P data level rolls sd"
    by (simp only: generate_loot_def generate_with_defaults)
next
  assume h: "generate_coins P (coin_values_gp data) (base * (1 / 5)) s = (Inr coins, s1) \<and>
    py_random P s1 = (Inr u, s2) \<and>
    lootgen_weighted_choice P (if u < 2 / 5 \<and> pool \<noteq> [] then pool else mundane_goods data) s2
      = (Inr it, s3) \<and>
    (map_of it ''id'' = None \<or> map_of it ''name'' = None \<or> map_of it ''gp_value'' = None)"
  from h have c: "generate_coins P (coin_values_gp data) (base * (1 / 5)) s = (Inr coins, s1)"
    by (rule conjunct1)
  from h have r: "py_random P s1 = (Inr u, s2)"
    by (rule conjunct2 [THEN conjunct1])
  from h have w: "lootgen_weighted_choice P
      (if u < 2 / 5 \<and> pool \<noteq> [] then pool else mundane_goods data) s2 = (Inr it, s3)"
    by (rule conjunct2 [THEN conjunct2, THEN conjunct1])
  from h have m: "map_of it ''id'' = None \<or> map_of it ''name'' = None \<or> map_of it ''gp_value'' = None"
    by (rule conjunct2 [THEN conjunct2, THEN conjunct2])
  show "generate_parcel P data level base pool s =
          (Inl (KeyError (if map_of it ''id'' = None then ''id''
                          else if map_of it ''name'' = None then ''name'' else ''gp_value'')), s3)"
    by (rule generate_parcel_missing [OF c r w m])
qed

theorem loot_defaults_and_required_fields_witness:
  "generate_loot demo_rt (loot_with_defaults demo_loot) 2 1 29 = Inr demo_loot_record \<and>
   generate_parcel demo_rt
     \<lparr>coin_values_gp = [(''gp'', 1)], level_budgets_gp = [(''1'', JInt 100)], magic_items = [],
      mundane_goods = [[(''name'', JStr ''Rope''), (''gp_value'', JInt 1)]]\<rparr> 1 100 [] (3::nat)
     = (Inl (KeyError ''id''), 89)"
  using loot_defaults_and_required_fields
    [where P = demo_rt and data = demo_loot and level = 2 and sd = 29 and rolls = 1]
    loot_defaults_and_required_fields
    [where P = demo_rt
       and data = "\<lparr>coin_values_gp = [(''gp'', 1)], level_budgets_gp = [(''1'', JInt 100)],
                      magic_items = [],
                      mundane_goods = [[(''name'', JStr ''Rope''), (''gp_value'', JInt 1)]]\<rparr>"
       and level = 1 and base = 100 and pool = "[]" and s = 3
       and coins = "[(''gp'', 3)]" and ?s1.0 = 24 and u = "2 / 5" and ?s2.0 = 70
       and it = "[(''name'', JStr ''Rope''), (''gp_value'', JInt 1)]" and ?s3.0 = 89]
    demo_generate_loot(1)
  by (simp add: demo_rt_def demo_next_def gbind_def glift_def greturn_def graise_def ebind_def
      dict_get_def generate_coins_def py_randint_def py_random_def py_trunc_def
      double_overflows_def lootgen_weighted_choice_def py_choices_def Let_def numeral_2_eq_2)

text \<open>
  The claim as it was stated fails: a mundane entry without \<open>id\<close> is not tolerated,
  generation raises \<open>KeyError\<close>.
\<close>

theorem missing_id_counterexample:
  "fst (generate demo_rt
     \<lparr>coin_values_gp = [(''gp'', 1)], level_budgets_gp = [(''1'', JInt 100)], magic_items = [],
      mundane_goods = [[(''name'', JStr ''Rope''), (''gp_value'', JInt 1)]]\<rparr> 7 1 1 (3::nat))
   = Inl (KeyError ''id'')"
  by (simp add: generate_def demo_rt_def demo_next_def str_int_def
      gbind_def glift_def greturn_def graise_def ebind_def dict_index_def dict_get_def
      generate_parcel_def generate_coins_def py_randint_def py_random_def py_trunc_def
      double_overflows_def lootgen_weighted_choice_def py_choices_def magic_entry_def
      mundane_entry_def Let_def numeral_2_eq_2)

end
